theory Spec2Isabelle
  imports Complex_Main
begin

section \<open>Python values\<close>

text \<open>
  The appointment draft is a Python dict whose values come from regular-expression captures
  (strings, ints) and from \<open>json.loads\<close> of the language model's answers (anything JSON
  can hold). A value is therefore one of the Python types \<open>json.loads\<close> produces. A
  float is read as the rational number it denotes (the infinities and NaN are left out);
  a dict value is its list of items, keys distinct.
\<close>

datatype pyval =
    PNone
  | PBool bool
  | PInt int
  | PFloat rat
  | PStr string
  | PList "pyval list"
  | PDict "(string \<times> pyval) list"

datatype error = TypeError | ValueError | AttributeError | KeyError | StoreError

text \<open>\<open>bool(v)\<close>, which \<open>not v\<close> and \<open>if v:\<close> consult.\<close>

fun truthy :: "pyval \<Rightarrow> bool" where
  "truthy PNone = False"
| "truthy (PBool b) = b"
| "truthy (PInt i) = (i \<noteq> 0)"
| "truthy (PFloat r) = (r \<noteq> 0)"
| "truthy (PStr s) = (s \<noteq> [])"
| "truthy (PList xs) = (xs \<noteq> [])"
| "truthy (PDict kvs) = (kvs \<noteq> [])"

text \<open>
  \<open>a == b\<close>: numbers compare by value across bool, int and float; strings and None
  compare with their own kind only; lists compare element by element; dicts compare as
  sets of items.
\<close>

fun py_num :: "pyval \<Rightarrow> rat option" where
  "py_num (PBool b) = Some (if b then 1 else 0)"
| "py_num (PInt i) = Some (of_int i)"
| "py_num (PFloat r) = Some r"
| "py_num _ = None"

fun py_eq :: "pyval \<Rightarrow> pyval \<Rightarrow> bool"
and py_eq_list :: "pyval list \<Rightarrow> pyval list \<Rightarrow> bool"
and py_eq_items :: "(string \<times> pyval) list \<Rightarrow> (string \<times> pyval) list \<Rightarrow> bool"
and py_eq_item :: "string \<Rightarrow> pyval \<Rightarrow> (string \<times> pyval) list \<Rightarrow> bool" where
  "py_eq PNone b = (b = PNone)"
| "py_eq (PStr s) b = (b = PStr s)"
| "py_eq (PList xs) b = (case b of PList ys \<Rightarrow> py_eq_list xs ys | _ \<Rightarrow> False)"
| "py_eq (PDict xs) b =
     (case b of PDict ys \<Rightarrow> length xs = length ys \<and> py_eq_items xs ys | _ \<Rightarrow> False)"
| "py_eq a b = (case py_num b of Some y \<Rightarrow> py_num a = Some y | None \<Rightarrow> False)"
| "py_eq_list [] ys = (ys = [])"
| "py_eq_list (x # xs) ys =
     (case ys of [] \<Rightarrow> False | y # ys' \<Rightarrow> py_eq x y \<and> py_eq_list xs ys')"
| "py_eq_items [] ys = True"
| "py_eq_items ((k, v) # xs) ys = (py_eq_item k v ys \<and> py_eq_items xs ys)"
| "py_eq_item k v [] = False"
| "py_eq_item k v ((k', v') # ys) = (if k = k' then py_eq v v' else py_eq_item k v ys)"

text \<open>\<open>len(v)\<close>; a value without a length raises TypeError.\<close>

fun py_len :: "pyval \<Rightarrow> error + nat" where
  "py_len (PStr s) = Inr (length s)"
| "py_len (PList xs) = Inr (length xs)"
| "py_len (PDict kvs) = Inr (length kvs)"
| "py_len _ = Inl TypeError"

section \<open>Strings\<close>

text \<open>
  Transcripts are modelled as ASCII text, one \<open>char\<close> per character. The classes
  below are Python's \<open>str\<close> predicates and the \<open>re\<close> classes on that range
  (\<open>\s\<close>, \<open>str.split\<close> and \<open>str.strip\<close> count the separators 0x1c-0x1f as
  white space). Text beyond ASCII is outside the model: there Python knows further white
  space (U+0085, U+00A0), letters (the accented ones) and digits, and a \<open>char\<close> above
  127 is here a symbol that is none of these and has no case.
\<close>

definition is_upper :: "char \<Rightarrow> bool" where
  "is_upper c = (let n = (of_char c :: nat) in 65 \<le> n \<and> n \<le> 90)"

definition is_lower :: "char \<Rightarrow> bool" where
  "is_lower c = (let n = (of_char c :: nat) in 97 \<le> n \<and> n \<le> 122)"

definition is_alpha :: "char \<Rightarrow> bool" where
  "is_alpha c = (is_upper c \<or> is_lower c)"

definition is_digit :: "char \<Rightarrow> bool" where
  "is_digit c = (let n = (of_char c :: nat) in 48 \<le> n \<and> n \<le> 57)"

definition is_space :: "char \<Rightarrow> bool" where
  "is_space c = (let n = (of_char c :: nat) in (9 \<le> n \<and> n \<le> 13) \<or> (28 \<le> n \<and> n \<le> 32))"

definition upper_letters :: string where
  "upper_letters = ''ABCDEFGHIJKLMNOPQRSTUVWXYZ''"

definition lower_letters :: string where
  "lower_letters = ''abcdefghijklmnopqrstuvwxyz''"

definition lower_char :: "char \<Rightarrow> char" where
  "lower_char c = (case map_of (zip upper_letters lower_letters) c of None \<Rightarrow> c | Some l \<Rightarrow> l)"

definition upper_char :: "char \<Rightarrow> char" where
  "upper_char c = (case map_of (zip lower_letters upper_letters) c of None \<Rightarrow> c | Some u \<Rightarrow> u)"

definition lower :: "string \<Rightarrow> string" where
  \<comment> \<open>\<open>s.lower()\<close>\<close>
  "lower s = map lower_char s"

definition py_strip :: "string \<Rightarrow> string" where
  \<comment> \<open>\<open>s.strip()\<close>\<close>
  "py_strip s = rev (dropWhile is_space (rev (dropWhile is_space s)))"

text \<open>\<open>s.split()\<close>: the maximal runs of characters that are not white space.\<close>

fun split_acc :: "string \<Rightarrow> string \<Rightarrow> string list" where
  "split_acc w [] = (if w = [] then [] else [w])"
| "split_acc w (c # cs) =
     (if is_space c then (if w = [] then split_acc [] cs else w # split_acc [] cs)
      else split_acc (w @ [c]) cs)"

definition py_split :: "string \<Rightarrow> string list" where
  "py_split s = split_acc [] s"

fun join :: "string \<Rightarrow> string list \<Rightarrow> string" where
  \<comment> \<open>\<open>sep.join(words)\<close>\<close>
  "join sep [] = []"
| "join sep [w] = w"
| "join sep (w # ws) = w @ sep @ join sep ws"

text \<open>
  \<open>s.title()\<close>: a letter that follows a letter is lower-cased, any other letter is
  upper-cased, and the rest is kept. The flag says whether the previous character was a
  letter.
\<close>

fun title_from :: "bool \<Rightarrow> string \<Rightarrow> string" where
  "title_from prev [] = []"
| "title_from prev (c # cs) =
     (if is_alpha c then (if prev then lower_char c else upper_char c) # title_from True cs
      else c # title_from False cs)"

definition title :: "string \<Rightarrow> string" where
  "title s = title_from False s"

definition capitalize :: "string \<Rightarrow> string" where
  \<comment> \<open>\<open>s.capitalize()\<close>\<close>
  "capitalize s = (case s of [] \<Rightarrow> [] | c # cs \<Rightarrow> upper_char c # lower cs)"

definition isalpha :: "string \<Rightarrow> bool" where
  \<comment> \<open>\<open>s.isalpha()\<close>: false for the empty string\<close>
  "isalpha s = (s \<noteq> [] \<and> list_all is_alpha s)"

fun starts_with :: "string \<Rightarrow> string \<Rightarrow> bool" where
  "starts_with s [] = True"
| "starts_with [] (p # ps) = False"
| "starts_with (c # cs) (p # ps) = (c = p \<and> starts_with cs ps)"

fun contains :: "string \<Rightarrow> string \<Rightarrow> bool" where
  \<comment> \<open>\<open>sub in s\<close>\<close>
  "contains [] sub = (sub = [])"
| "contains (c # cs) sub = (starts_with (c # cs) sub \<or> contains cs sub)"

text \<open>
  \<open>s.replace(old, new)\<close>: the occurrences of \<open>old\<close> from left to right, none
  overlapping; the counter is the number of characters of a replaced occurrence still to
  skip. An empty \<open>old\<close> matches before every character and at the end.
\<close>

fun replace_from :: "nat \<Rightarrow> string \<Rightarrow> string \<Rightarrow> string \<Rightarrow> string" where
  "replace_from skip old new [] = []"
| "replace_from (Suc k) old new (c # cs) = replace_from k old new cs"
| "replace_from 0 old new (c # cs) =
     (if starts_with (c # cs) old then new @ replace_from (length old - 1) old new cs
      else c # replace_from 0 old new cs)"

definition replace :: "string \<Rightarrow> string \<Rightarrow> string \<Rightarrow> string" where
  "replace s old new =
     (if old = [] then new @ concat (map (\<lambda>c. c # new) s) else replace_from 0 old new s)"

text \<open>Decimal numerals, for \<open>str(n)\<close> and \<open>int(s)\<close>.\<close>

fun dec :: "nat \<Rightarrow> string" where
  "dec n = (if n < 10 then [''0123456789'' ! n] else dec (n div 10) @ [''0123456789'' ! (n mod 10)])"

declare dec.simps [simp del]

definition str_int :: "int \<Rightarrow> string" where
  "str_int i = (if i < 0 then CHR ''-'' # dec (nat (- i)) else dec (nat i))"

text \<open>
  \<open>int(s)\<close> for a string: the white space \<open>int\<close> skips at both ends of an ASCII
  string is the tab to carriage-return range and the blank (not the separators
  0x1c-0x1f, which \<open>str.strip\<close> removes); then an optional sign and decimal digits, with
  single underscores allowed between two digits. The flag says whether the previous
  character was a digit.
\<close>

definition is_int_space :: "char \<Rightarrow> bool" where
  "is_int_space c = (let n = (of_char c :: nat) in (9 \<le> n \<and> n \<le> 13) \<or> n = 32)"

fun int_digits :: "nat \<Rightarrow> bool \<Rightarrow> string \<Rightarrow> nat option" where
  "int_digits acc d [] = (if d then Some acc else None)"
| "int_digits acc d (c # cs) =
     (if is_digit c then int_digits (acc * 10 + (of_char c - 48)) True cs
      else if c = CHR ''_'' \<and> d then int_digits acc False cs
      else None)"

definition int_of_str :: "string \<Rightarrow> int option" where
  "int_of_str s =
     (case rev (dropWhile is_int_space (rev (dropWhile is_int_space s))) of
        [] \<Rightarrow> None
      | c # cs \<Rightarrow>
          if c = CHR ''-'' then map_option (\<lambda>n. - int n) (int_digits 0 False cs)
          else if c = CHR ''+'' then map_option int (int_digits 0 False cs)
          else map_option int (int_digits 0 False (c # cs)))"

section \<open>Conversions of Python values\<close>

text \<open>
  \<open>int(v)\<close>. A float is truncated towards zero; a string is parsed; None, lists and
  dicts raise TypeError.
\<close>

fun py_int :: "pyval \<Rightarrow> error + int" where
  "py_int (PInt i) = Inr i"
| "py_int (PBool b) = Inr (if b then 1 else 0)"
| "py_int (PFloat r) = Inr (if 0 \<le> r then \<lfloor>r\<rfloor> else \<lceil>r\<rceil>)"
| "py_int (PStr s) = (case int_of_str s of None \<Rightarrow> Inl ValueError | Some i \<Rightarrow> Inr i)"
| "py_int _ = Inl TypeError"

text \<open>
  \<open>str(v)\<close>, which an f-string applies to its fields. The text of a float, a list or a
  dict is a parameter of the model.
\<close>

fun py_str :: "(pyval \<Rightarrow> string) \<Rightarrow> pyval \<Rightarrow> string" where
  "py_str other (PStr s) = s"
| "py_str other (PInt i) = str_int i"
| "py_str other (PBool b) = (if b then ''True'' else ''False'')"
| "py_str other PNone = ''None''"
| "py_str other v = other v"

section \<open>Regular expressions\<close>

text \<open>
  The patterns of routes.py use literals, character classes, alternation, optional parts,
  greedy and lazy repetition, the end anchor and one capturing group each. The matcher
  below is a backtracking matcher in continuation style, which tries the alternatives in
  the order \<open>re\<close> does: the left branch of an alternation first, one more iteration of a
  greedy repetition before leaving it, leaving a lazy repetition before one more iteration.
  A match state is the rest of the input and the text of group 1 so far. A repetition
  takes the length of the input as its bound on iterations, each of which has to consume
  a character.
\<close>

datatype re =
    Chr char
  | Cls "char \<Rightarrow> bool"
  | Eps
  | Eol
  | Seq re re
  | Alt re re
  | Star re
  | Lazy re
  | Grp re

type_synonym mstate = "string \<times> string option"

primrec star ::
  "nat \<Rightarrow> ((mstate \<Rightarrow> 'a option) \<Rightarrow> mstate \<Rightarrow> 'a option) \<Rightarrow> (mstate \<Rightarrow> 'a option)
     \<Rightarrow> mstate \<Rightarrow> 'a option" where
  "star 0 f k st = k st"
| "star (Suc n) f k st =
     (case f (\<lambda>st'. if length (fst st') < length (fst st) then star n f k st' else None) st of
        Some x \<Rightarrow> Some x
      | None \<Rightarrow> k st)"

primrec lazy ::
  "nat \<Rightarrow> ((mstate \<Rightarrow> 'a option) \<Rightarrow> mstate \<Rightarrow> 'a option) \<Rightarrow> (mstate \<Rightarrow> 'a option)
     \<Rightarrow> mstate \<Rightarrow> 'a option" where
  "lazy 0 f k st = k st"
| "lazy (Suc n) f k st =
     (case k st of
        Some x \<Rightarrow> Some x
      | None \<Rightarrow>
          f (\<lambda>st'. if length (fst st') < length (fst st) then lazy n f k st' else None) st)"

primrec rmatch :: "re \<Rightarrow> (mstate \<Rightarrow> 'a option) \<Rightarrow> mstate \<Rightarrow> 'a option" where
  "rmatch (Chr c) k st =
     (case fst st of [] \<Rightarrow> None | x # xs \<Rightarrow> if x = c then k (xs, snd st) else None)"
| "rmatch (Cls p) k st =
     (case fst st of [] \<Rightarrow> None | x # xs \<Rightarrow> if p x then k (xs, snd st) else None)"
| "rmatch Eps k st = k st"
| "rmatch Eol k st = (if fst st = [] \<or> fst st = [CHR 0x0A] then k st else None)"
| "rmatch (Seq a b) k st = rmatch a (rmatch b k) st"
| "rmatch (Alt a b) k st = (case rmatch a k st of Some x \<Rightarrow> Some x | None \<Rightarrow> rmatch b k st)"
| "rmatch (Star a) k st = star (length (fst st)) (rmatch a) k st"
| "rmatch (Lazy a) k st = lazy (length (fst st)) (rmatch a) k st"
| "rmatch (Grp a) k st =
     rmatch a (\<lambda>st'. k (fst st', Some (take (length (fst st) - length (fst st')) (fst st)))) st"

text \<open>
  \<open>re.search(pattern, s)\<close> followed by \<open>match.group(1)\<close>: the first start position
  with a match, and there the first match in the matcher's order. In every pattern of
  routes.py the group lies outside the optional parts, so it has a text whenever the
  pattern matches.
\<close>

primrec search :: "re \<Rightarrow> string \<Rightarrow> string option" where
  "search r [] = rmatch r snd ([], None)"
| "search r (c # cs) =
     (case rmatch r snd (c # cs, None) of Some g \<Rightarrow> Some g | None \<Rightarrow> search r cs)"

primrec lit :: "string \<Rightarrow> re" where
  "lit [] = Eps"
| "lit (c # cs) = Seq (Chr c) (lit cs)"

fun seqs :: "re list \<Rightarrow> re" where
  "seqs [] = Eps"
| "seqs [r] = r"
| "seqs (r # rs) = Seq r (seqs rs)"

fun alts :: "re list \<Rightarrow> re" where
  "alts [] = Eps"
| "alts [r] = r"
| "alts (r # rs) = Alt r (alts rs)"

definition opt :: "re \<Rightarrow> re" where
  \<comment> \<open>\<open>(?:r)?\<close>\<close>
  "opt r = Alt r Eps"

definition plus :: "re \<Rightarrow> re" where
  \<comment> \<open>\<open>r+\<close>\<close>
  "plus r = Seq r (Star r)"

definition lazy_plus :: "re \<Rightarrow> re" where
  \<comment> \<open>\<open>r+?\<close>\<close>
  "lazy_plus r = Seq r (Lazy r)"

definition digit :: re where
  \<comment> \<open>\<open>\d\<close>\<close>
  "digit = Cls is_digit"

definition digits12 :: re where
  \<comment> \<open>\<open>\d{1,2}\<close>\<close>
  "digits12 = Seq digit (opt digit)"

definition spaces :: re where
  \<comment> \<open>\<open>\s*\<close>\<close>
  "spaces = Star (Cls is_space)"

definition dot :: re where
  \<comment> \<open>\<open>.\<close>: any character but the newline\<close>
  "dot = Cls (\<lambda>c. c \<noteq> CHR 0x0A)"

definition sp :: re where
  "sp = Chr CHR '' ''"

section \<open>Session state\<close>

text \<open>
  \<open>routes.py\<close> keeps three things per call: the module-level dict
  \<open>conversation_history\<close>, and the two session entries
  \<open>appointment_data_<sid>\<close> and \<open>confirmation_state_<sid>\<close>. The two key
  prefixes differ in their first letter, so the session is two maps from the call id.
\<close>

type_synonym draft = "string \<rightharpoonup> pyval"

record state =
  conversation_history :: "string \<rightharpoonup> (string \<times> string) list"
  appointment_data :: "string \<rightharpoonup> draft"
  confirmation_state :: "string \<rightharpoonup> bool"

section \<open>The call-status webhook\<close>

text \<open>
  \<open>call_status\<close> (routes.py, lines 506-527). \<open>CallStatus\<close> is read with
  \<open>request.values.get\<close> and is None when the parameter is absent. Both the normal and
  the exceptional exit answer with an empty body and status 200; nothing in the body can
  raise, because the \<open>del\<close> is guarded and \<open>pop\<close> is given a default.
\<close>

definition terminal_statuses :: "string list" where
  "terminal_statuses = [''completed'', ''failed'', ''busy'', ''no-answer'', ''canceled'']"

definition call_status :: "state \<Rightarrow> string \<Rightarrow> string option \<Rightarrow> state \<times> string \<times> nat" where
  "call_status st call_sid status =
     (let st' =
        (case status of
           None \<Rightarrow> st
         | Some s \<Rightarrow>
             if s \<in> set terminal_statuses then
               st\<lparr>conversation_history := (conversation_history st)(call_sid := None),
                  appointment_data := (appointment_data st)(call_sid := None),
                  confirmation_state := (confirmation_state st)(call_sid := None)\<rparr>
             else st)
      in (st', '''', 200))"

section \<open>Reconciling the model-assisted result with the draft\<close>

text \<open>
  routes.py, lines 282-298: the loop over \<open>extracted_data.items()\<close>. The dict the
  language-model service returned is the list of its items in iteration order.
  \<open>len\<close> of a value without a length raises TypeError, which leaves the loop (and the
  handler's \<open>try\<close> block).
\<close>

definition unset :: "draft \<Rightarrow> string \<Rightarrow> bool" where
  \<comment> \<open>\<open>key not in appointment_data or not appointment_data[key]\<close>\<close>
  "unset ad key = (case ad key of None \<Rightarrow> True | Some v \<Rightarrow> \<not> truthy v)"

fun merge_entry :: "draft \<Rightarrow> string \<times> pyval \<Rightarrow> error + draft" where
  "merge_entry ad (key, value) =
     (if value \<noteq> PNone \<and> \<not> py_eq value (PStr '''') then
        if key = ''patient'' then
          if py_eq value (PStr ''null'') \<or> py_eq value (PStr ''NULL'')
             \<or> py_eq value (PStr ''None'')
          then Inr ad
          else
            (case ad key of
               None \<Rightarrow> Inr (ad(key \<mapsto> value))
             | Some cur \<Rightarrow>
                 if \<not> truthy cur \<or> py_eq cur (PStr ''null'') then Inr (ad(key \<mapsto> value))
                 else
                   (case py_len value of
                      Inl e \<Rightarrow> Inl e
                    | Inr n \<Rightarrow>
                        (case py_len cur of
                           Inl e \<Rightarrow> Inl e
                         | Inr m \<Rightarrow> if n > m then Inr (ad(key \<mapsto> value)) else Inr ad)))
        else if unset ad key then Inr (ad(key \<mapsto> value))
        else Inr ad
      else Inr ad)"

fun merge_llm :: "draft \<Rightarrow> (string \<times> pyval) list \<Rightarrow> error + draft" where
  "merge_llm ad [] = Inr ad"
| "merge_llm ad (kv # kvs) =
     (case merge_entry ad kv of Inl e \<Rightarrow> Inl e | Inr ad' \<Rightarrow> merge_llm ad' kvs)"

section \<open>The deterministic extractor\<close>

text \<open>
  routes.py, lines 135-273. Every pattern is searched in the lower-cased transcript.
\<close>

definition apostrophe :: char where
  "apostrophe = CHR 0x27"

definition name_span :: re where
  \<comment> \<open>\<open>([A-Za-z\s]+)\<close>\<close>
  "name_span = Grp (plus (Cls (\<lambda>c. is_alpha c \<or> is_space c)))"

definition name_patterns :: "re list" where
  "name_patterns =
     [seqs [alts [lit ''my name is'', lit ''this is'', lit ''i am'',
                  lit [CHR ''i'', apostrophe, CHR ''m''], lit ''name is''], sp, name_span],
      seqs [name_span, sp, lit ''is my name''],
      seqs [lit ''patient'', opt (lit [apostrophe, CHR ''s'']), lit '' name '', opt (lit ''is''),
            sp, name_span]]"

definition stop_words :: "string list" where
  "stop_words = [''calling'', ''here'', ''speaking'', ''and'', ''the'', ''to'', ''for'', ''with'',
     ''hospital'', ''id'', ''symptoms'', ''date'', ''time'']"

definition clean_words :: "string \<Rightarrow> string list" where
  \<comment> \<open>\<open>[word for word in raw_name.split() if word not in [...]]\<close>, for
     \<open>raw_name = match.group(1).strip()\<close>\<close>
  "clean_words g = filter (\<lambda>word. word \<notin> set stop_words) (py_split (py_strip g))"

text \<open>
  The loop over \<open>name_patterns\<close>: a pattern whose cleaned capture is empty does not end
  the loop, the next pattern is tried.
\<close>

fun capture_name :: "re list \<Rightarrow> string \<Rightarrow> string option" where
  "capture_name [] speech_lower = None"
| "capture_name (pattern # ps) speech_lower =
     (case search pattern speech_lower of
        None \<Rightarrow> capture_name ps speech_lower
      | Some g \<Rightarrow>
          if clean_words g \<noteq> [] then Some (title (join '' '' (clean_words g)))
          else capture_name ps speech_lower)"

definition name_keywords :: "string list" where
  "name_keywords = [''hospital'', ''symptom'', ''date'', ''time'', ''appointment'', ''book'']"

definition extract_name :: "draft \<Rightarrow> string \<Rightarrow> draft" where
  "extract_name ad speech_result =
     (let speech_lower = lower speech_result in
      case capture_name name_patterns speech_lower of
        Some name \<Rightarrow> ad(''patient'' \<mapsto> PStr name)
      | None \<Rightarrow>
          if length (py_split speech_lower) \<le> 4 \<and> list_all isalpha (py_split speech_lower) then
            if \<not> list_ex (contains speech_lower) name_keywords
            then ad(''patient'' \<mapsto> PStr (title (py_strip speech_result)))
            else ad
          else ad)"

definition number_span :: re where
  \<comment> \<open>\<open>(\d+)\<close>\<close>
  "number_span = Grp (plus digit)"

definition hospital_patterns :: "re list" where
  "hospital_patterns =
     [seqs [lit ''hospital '', opt (alts [lit ''id'', lit ''ID'', lit ''number'', lit ''#'']),
            spaces, opt (lit ''is''), spaces, number_span],
      seqs [lit ''hospital'', opt (alts [lit ''id'', lit ''ID'']), sp, number_span],
      seqs [alts [lit ''id'', lit ''ID'', lit ''number''], sp, number_span],
      seqs [lit ''hospital '', number_span],
      seqs [lit ''the number '', number_span]]"

text \<open>
  The loop over \<open>hospital_patterns\<close>: \<open>int\<close> of the capture ends the loop; a
  ValueError is logged and the next pattern is tried.
\<close>

fun capture_hospital :: "re list \<Rightarrow> string \<Rightarrow> int option" where
  "capture_hospital [] speech_lower = None"
| "capture_hospital (pattern # ps) speech_lower =
     (case search pattern speech_lower of
        None \<Rightarrow> capture_hospital ps speech_lower
      | Some g \<Rightarrow>
          (case int_of_str (py_strip g) of
             Some i \<Rightarrow> Some i
           | None \<Rightarrow> capture_hospital ps speech_lower))"

text \<open>
  The loops over the date, time and symptom patterns: the first pattern that matches
  gives the value, its group stripped.
\<close>

fun first_match :: "re list \<Rightarrow> string \<Rightarrow> string option" where
  "first_match [] speech_lower = None"
| "first_match (pattern # ps) speech_lower =
     (case search pattern speech_lower of
        None \<Rightarrow> first_match ps speech_lower
      | Some g \<Rightarrow> Some (py_strip g))"

definition year :: re where
  \<comment> \<open>\<open>20\d\d\<close>\<close>
  "year = seqs [lit ''20'', digit, digit]"

definition iso_date :: re where
  \<comment> \<open>\<open>(20\d\d-\d{1,2}-\d{1,2})\<close>\<close>
  "iso_date = Grp (seqs [year, Chr CHR ''-'', digits12, Chr CHR ''-'', digits12])"

definition slash :: re where
  \<comment> \<open>\<open>[/-]\<close>\<close>
  "slash = Cls (\<lambda>c. c = CHR ''/'' \<or> c = CHR ''-'')"

definition numeric_date :: re where
  \<comment> \<open>\<open>(\d{1,2}[/-]\d{1,2}[/-]20\d\d)\<close>\<close>
  "numeric_date = Grp (seqs [digits12, slash, digits12, slash, year])"

definition month_date :: re where
  \<comment> \<open>\<open>([a-z]+ \d{1,2}(?:st|nd|rd|th)?(?:,)? 20\d\d)\<close>\<close>
  "month_date = Grp (seqs [plus (Cls is_lower), sp, digits12,
     opt (alts [lit ''st'', lit ''nd'', lit ''rd'', lit ''th'']), opt (lit '',''), sp, year])"

definition date_patterns :: "re list" where
  "date_patterns =
     [seqs [lit ''date '', opt (alts [lit ''is'', lit ''of'']), sp, iso_date],
      iso_date,
      seqs [lit ''date '', opt (alts [lit ''is'', lit ''of'']), sp, numeric_date],
      numeric_date,
      seqs [lit ''date '', opt (alts [lit ''is'', lit ''for'', lit ''on'']), sp, month_date],
      seqs [lit ''on '', month_date]]"

definition clock :: re where
  \<comment> \<open>\<open>\d{1,2}(?::\d{2})?\s*\<close>\<close>
  "clock = seqs [digits12, opt (seqs [Chr CHR '':'', digit, digit]), spaces]"

definition ampm_time :: re where
  \<comment> \<open>\<open>(\d{1,2}(?::\d{2})?\s*(?:am|pm))\<close>\<close>
  "ampm_time = Grp (seqs [clock, alts [lit ''am'', lit ''pm'']])"

definition time_patterns :: "re list" where
  "time_patterns =
     [seqs [lit ''time '', opt (alts [lit ''is'', lit ''at'']), sp, ampm_time],
      ampm_time,
      seqs [lit ''at '', ampm_time],
      seqs [lit ''time '', opt (alts [lit ''is'', lit ''at'']), sp,
            Grp (seqs [clock, alts [lit ''in the morning'', lit ''in the afternoon'',
                                    lit ''in the evening'']])],
      seqs [Grp digits12, sp,
            alts [lit ([CHR ''o'', apostrophe] @ ''clock''), lit ''oclock'']]]"

definition symptom_markers :: "string list" where
  "symptom_markers = [''symptom'', ''problem'', ''issue'', ''reason'', ''suffering'', ''pain'',
     ''appointment for'']"

definition symptom_span :: re where
  \<comment> \<open>\<open>(.+?)(?:\.|$|date|time|hospital)\<close>\<close>
  "symptom_span = Seq (Grp (lazy_plus dot))
     (alts [Chr CHR ''.'', Eol, lit ''date'', lit ''time'', lit ''hospital''])"

definition symptoms_patterns :: "re list" where
  "symptoms_patterns =
     [seqs [lit ''symptom'', opt (lit ''s''), sp, alts [lit ''is'', lit ''are''], sp, symptom_span],
      seqs [lit ''problem'', opt (lit ''s''), sp, alts [lit ''is'', lit ''are''], sp, symptom_span],
      seqs [lit ''suffering from '', symptom_span],
      seqs [lit ''reason '', alts [lit ''is'', lit ''for''], sp, symptom_span],
      seqs [lit ''issue '', alts [lit ''is'', lit ''with''], sp, symptom_span],
      seqs [lit ''appointment for '', symptom_span],
      seqs [lit ''i have '', alts [lit ''a'', lit ''an''], sp, symptom_span]]"

definition explicit_symptoms :: "string \<Rightarrow> string option" where
  "explicit_symptoms speech_lower =
     (if list_ex (contains speech_lower) symptom_markers
      then first_match symptoms_patterns speech_lower
      else None)"

definition common_phrases :: "string list" where
  "common_phrases = [''my name is'', ''this is'', ''i am'', [CHR ''i'', apostrophe, CHR ''m''],
     ''name is'', ''hospital id'', ''date is'', ''time is'', ''i need'', ''i want'', ''to book'',
     ''an appointment'', ''appointment for'']"

text \<open>
  Lines 247-273: with no symptoms captured and the other four fields in the draft, what
  is left of the transcript once the known values and the filler phrases are blanked out.
  \<open>.lower()\<close> on a patient that is not a string raises AttributeError.
\<close>

definition residual_symptoms ::
  "(pyval \<Rightarrow> string) \<Rightarrow> draft \<Rightarrow> string \<Rightarrow> error + string option" where
  "residual_symptoms other ad speech_lower =
     (case (ad ''patient'', ad ''hospital_id'', ad ''date'', ad ''time'') of
        (Some p, Some h, Some d, Some t) \<Rightarrow>
          (case p of
             PStr name \<Rightarrow>
               (let words_to_remove =
                      py_split (lower name)
                      @ [''hospital '' @ py_str other h, ''hospital id '' @ py_str other h]
                      @ [lower (py_str other d)]
                      @ [lower (py_str other t)]
                      @ common_phrases;
                    remaining_text =
                      join '' '' (py_split
                        (foldl (\<lambda>text phrase. replace text phrase '' '') speech_lower
                           words_to_remove))
                in Inr (if length remaining_text > 3 then Some (capitalize remaining_text)
                        else None))
           | _ \<Rightarrow> Inl AttributeError)
      | _ \<Rightarrow> Inr None)"

definition capture_symptoms ::
  "(pyval \<Rightarrow> string) \<Rightarrow> draft \<Rightarrow> string \<Rightarrow> error + string option" where
  "capture_symptoms other ad speech_lower =
     (case explicit_symptoms speech_lower of
        Some symptoms \<Rightarrow> Inr (Some symptoms)
      | None \<Rightarrow> residual_symptoms other ad speech_lower)"

definition set_str :: "draft \<Rightarrow> string \<Rightarrow> string option \<Rightarrow> draft" where
  \<comment> \<open>\<open>appointment_data[key] = value\<close> when a value was captured\<close>
  "set_str ad key captured = (case captured of None \<Rightarrow> ad | Some s \<Rightarrow> ad(key \<mapsto> PStr s))"

definition capture_fields :: "draft \<Rightarrow> string \<Rightarrow> string \<Rightarrow> draft" where
  \<comment> \<open>lines 130-219: phone, name, hospital id, date and time\<close>
  "capture_fields ad recipient_number speech_result =
     (let speech_lower = lower speech_result;
          ad1 = (if ad ''phone'' = None then ad(''phone'' \<mapsto> PStr recipient_number) else ad);
          ad2 = extract_name ad1 speech_result;
          ad3 = (case capture_hospital hospital_patterns speech_lower of
                   None \<Rightarrow> ad2
                 | Some i \<Rightarrow> ad2(''hospital_id'' \<mapsto> PInt i));
          ad4 = set_str ad3 ''date'' (first_match date_patterns speech_lower)
      in set_str ad4 ''time'' (first_match time_patterns speech_lower))"

definition direct_capture ::
  "(pyval \<Rightarrow> string) \<Rightarrow> draft \<Rightarrow> string \<Rightarrow> string \<Rightarrow> error + draft" where
  \<comment> \<open>lines 130-273\<close>
  "direct_capture other ad recipient_number speech_result =
     (let ad5 = capture_fields ad recipient_number speech_result in
      case capture_symptoms other ad5 (lower speech_result) of
        Inl e \<Rightarrow> Inl e
      | Inr captured \<Rightarrow> Inr (set_str ad5 ''symptoms'' captured))"

definition reconcile ::
  "(pyval \<Rightarrow> string) \<Rightarrow> draft \<Rightarrow> string \<Rightarrow> string \<Rightarrow> (string \<times> pyval) list
     \<Rightarrow> error + draft" where
  \<comment> \<open>lines 130-298: the deterministic extractor, then the model-assisted result\<close>
  "reconcile other ad recipient_number speech_result extracted_data =
     (case direct_capture other ad recipient_number speech_result of
        Inl e \<Rightarrow> Inl e
      | Inr ad' \<Rightarrow> merge_llm ad' extracted_data)"

section \<open>The scheduling store\<close>

text \<open>
  database/__init__.py. The store is the two tables the handlers read and write. Dates
  are the values \<open>dateutil.parser.parse(..).date()\<close> returns, a type parameter
  \<open>'d\<close> of the model; the parser itself is the parameter \<open>parse_date\<close>, which is
  \<open>None\<close> where the parser raises. A statement that raises (no connection, a failed
  query) is a statement for which \<open>raises\<close> holds. The time column is compared with the
  draft's time as a value.
\<close>

record 'd appointment =
  appt_id :: int
  appt_patient :: pyval
  appt_phone :: pyval
  appt_symptoms :: pyval
  appt_latitude :: pyval
  appt_longitude :: pyval
  appt_date :: 'd
  appt_time :: pyval
  appt_hospital :: int
  appt_alert :: pyval

datatype 'd statement =
    SelectHospital int
  | CountAppointments int 'd pyval
  | InsertAppointment

record 'd store =
  hospitals :: "(int \<times> string) list"
  appointments :: "'d appointment list"
  next_id :: int
  raises :: "'d statement \<Rightarrow> bool"

record 'd env =
  parse_date :: "string \<Rightarrow> 'd option"
  str_other :: "pyval \<Rightarrow> string"

definition check_hospital_exists :: "'d store \<Rightarrow> int \<Rightarrow> bool \<times> string option" where
  "check_hospital_exists db hospital_id =
     (if raises db (SelectHospital hospital_id) then (False, None)
      else
        (case find (\<lambda>row. fst row = hospital_id) (hospitals db) of
           None \<Rightarrow> (False, None)
         | Some row \<Rightarrow> (True, Some (snd row))))"

definition slot_count :: "'d store \<Rightarrow> int \<Rightarrow> 'd \<Rightarrow> pyval \<Rightarrow> nat" where
  \<comment> \<open>\<open>SELECT COUNT(*) FROM "Appointment" WHERE "hospitalId" = .. AND "date" = .. AND
     "time" = ..\<close>\<close>
  "slot_count db hospital_id date_obj time =
     length (filter (\<lambda>a. appt_hospital a = hospital_id \<and> appt_date a = date_obj
                          \<and> appt_time a = time) (appointments db))"

text \<open>
  \<open>check_appointment_availability\<close>: the draft's date is never a \<open>datetime.date\<close>,
  so it goes through the parser, which raises on a value that is not a string and on a
  string it cannot read. Every exception gives False.
\<close>

definition check_appointment_availability ::
  "'d env \<Rightarrow> 'd store \<Rightarrow> int \<Rightarrow> pyval \<Rightarrow> pyval \<Rightarrow> bool" where
  "check_appointment_availability env db hospital_id date time =
     (case date of
        PStr s \<Rightarrow>
          (case parse_date env s of
             None \<Rightarrow> False
           | Some date_obj \<Rightarrow>
               if raises db (CountAppointments hospital_id date_obj time) then False
               else slot_count db hospital_id date_obj time < 3)
      | _ \<Rightarrow> False)"

text \<open>
  \<open>create_appointment\<close>: a missing key, a date the parser rejects, a hospital id
  \<open>int\<close> rejects and a failing INSERT all end in the \<open>except\<close> branch, which
  returns None. A date that is not a string reaches the INSERT unparsed, where the date
  column rejects it. The new row gets the store's next id, which is returned.
\<close>

definition get_default :: "draft \<Rightarrow> string \<Rightarrow> pyval \<Rightarrow> pyval" where
  \<comment> \<open>\<open>appointment_data.get(key, default)\<close>\<close>
  "get_default ad key fallback = (case ad key of None \<Rightarrow> fallback | Some v \<Rightarrow> v)"

definition create_appointment :: "'d env \<Rightarrow> 'd store \<Rightarrow> draft \<Rightarrow> int option \<times> 'd store" where
  "create_appointment env db ad =
     (case (ad ''date'', ad ''patient'', ad ''phone'', ad ''symptoms'', ad ''time'',
            ad ''hospital_id'') of
        (Some (PStr s), Some patient, Some phone, Some symptoms, Some time, Some h) \<Rightarrow>
          (case parse_date env s of
             None \<Rightarrow> (None, db)
           | Some date_obj \<Rightarrow>
               (case py_int h of
                  Inl e \<Rightarrow> (None, db)
                | Inr hospital_id \<Rightarrow>
                    if raises db InsertAppointment then (None, db)
                    else
                      (Some (next_id db),
                       db\<lparr>appointments := appointments db @
                            [\<lparr>appt_id = next_id db, appt_patient = patient, appt_phone = phone,
                              appt_symptoms = symptoms,
                              appt_latitude = get_default ad ''latitude'' (PFloat 0),
                              appt_longitude = get_default ad ''longitude'' (PFloat 0),
                              appt_date = date_obj, appt_time = time,
                              appt_hospital = hospital_id,
                              appt_alert = get_default ad ''alert'' (PList [])\<rparr>],
                          next_id := next_id db + 1\<rparr>)))
      | _ \<Rightarrow> (None, db))"

section \<open>The conversation webhook\<close>

text \<open>
  A reply is the triple of arguments given to \<open>create_conversation_response\<close>: the
  text to say, the action URL (None for the default, the conversation webhook) and whether
  speech is gathered.
\<close>

datatype response = Response (say: string) (action_url: "string option") (gather_speech: bool)

definition required_fields :: "string list" where
  "required_fields = [''patient'', ''symptoms'', ''date'', ''time'', ''hospital_id'']"

definition missing_fields :: "draft \<Rightarrow> string list" where
  "missing_fields ad = filter (unset ad) required_fields"

text \<open>
  \<open>verify_appointment_details\<close> (llm/__init__.py, lines 239-270) stores the hospital
  name in the draft it is given, which is the object in the session, and returns the
  model's text, or the fixed summary when the model gave none.
\<close>

definition fmt_get :: "(pyval \<Rightarrow> string) \<Rightarrow> draft \<Rightarrow> string \<Rightarrow> string \<Rightarrow> string" where
  \<comment> \<open>\<open>{appointment_data.get(key, default)}\<close> in an f-string\<close>
  "fmt_get other ad key fallback = py_str other (get_default ad key (PStr fallback))"

definition fixed_summary :: "(pyval \<Rightarrow> string) \<Rightarrow> draft \<Rightarrow> pyval \<Rightarrow> string" where
  "fixed_summary other ad name =
     ''I'd like to confirm your appointment for '' @ fmt_get other ad ''patient'' ''you''
     @ '' at '' @ py_str other name
     @ '' on '' @ fmt_get other ad ''date'' ''the specified date''
     @ '' at '' @ fmt_get other ad ''time'' ''the specified time''
     @ '' for '' @ fmt_get other ad ''symptoms'' ''your health concern''
     @ ''. Is this correct?''"

definition verify_appointment_details ::
  "(pyval \<Rightarrow> string) \<Rightarrow> string option \<Rightarrow> draft \<Rightarrow> string option \<Rightarrow> draft \<times> string" where
  "verify_appointment_details other llm_text ad hospital_name =
     (let name = (case hospital_name of None \<Rightarrow> PNone | Some n \<Rightarrow> PStr n);
          ad' = ad(''hospital_name'' \<mapsto> name)
      in (ad',
          case llm_text of
            None \<Rightarrow> fixed_summary other ad' name
          | Some text \<Rightarrow> if text \<noteq> [] then text else fixed_summary other ad' name))"

definition set_draft :: "state \<Rightarrow> string \<Rightarrow> draft \<Rightarrow> state" where
  \<comment> \<open>\<open>session[f"appointment_data_{call_sid}"] = appointment_data\<close>\<close>
  "set_draft st call_sid ad = st\<lparr>appointment_data := (appointment_data st)(call_sid \<mapsto> ad)\<rparr>"

text \<open>
  Lines 315-353, for a draft with no missing field: the hospital check, the slot check,
  and the confirmation. \<open>int\<close> of the hospital id may raise, and so does the lookup of
  a key the draft lacks.
\<close>

definition validate ::
  "'d env \<Rightarrow> 'd store \<Rightarrow> string option \<Rightarrow> state \<Rightarrow> string \<Rightarrow> draft
     \<Rightarrow> error + state \<times> response" where
  "validate env db llm_text st call_sid ad =
     (case ad ''hospital_id'' of
        None \<Rightarrow> Inl KeyError
      | Some h \<Rightarrow>
          (case py_int h of
             Inl e \<Rightarrow> Inl e
           | Inr hospital_id \<Rightarrow>
               (case check_hospital_exists db hospital_id of
                  (hospital_exists, hospital_name) \<Rightarrow>
                    if \<not> hospital_exists then
                      Inr (set_draft st call_sid (ad(''hospital_id'' := None)),
                           Response (''I'm sorry, the hospital with ID '' @ py_str (str_other env) h
                               @ '' doesn't exist in our system. Please say a different hospital ID between 1 and 10.'')
                             None True)
                    else
                      (case (ad ''date'', ad ''time'') of
                         (Some date, Some time) \<Rightarrow>
                           if \<not> check_appointment_availability env db hospital_id date time then
                             Inr (set_draft st call_sid (ad(''time'' := None)),
                                  Response (''I'm sorry, but the time slot at ''
                                      @ py_str (str_other env) time
                                      @ '' on '' @ py_str (str_other env) date
                                      @ '' is fully booked. Please suggest a different time.'')
                                    None True)
                           else
                             (case verify_appointment_details (str_other env) llm_text ad
                                     hospital_name of
                                (ad', confirmation_text) \<Rightarrow>
                                  Inr ((set_draft st call_sid ad')
                                         \<lparr>confirmation_state :=
                                            (confirmation_state st)(call_sid \<mapsto> True)\<rparr>,
                                       Response confirmation_text
                                         (Some ''/api/confirm_appointment'') True))
                       | _ \<Rightarrow> Inl KeyError))))"

text \<open>Lines 356-370: the follow-up question for the fields still missing.\<close>

definition single_prompt :: "string \<Rightarrow> string option" where
  "single_prompt field =
     (if field = ''patient'' then
        Some ''I still need your full name. Please clearly say: My name is followed by your full name.''
      else if field = ''hospital_id'' then
        Some ''I need the hospital ID number. Please clearly say: Hospital ID followed by a number between 1 and 10.''
      else if field = ''symptoms'' then
        Some ''I need to know why you're booking this appointment. Please clearly say: My symptoms are, followed by your health concern.''
      else if field = ''date'' then
        Some ''I need the date for your appointment. Please clearly say: The date is, followed by a date like 2023-06-15.''
      else if field = ''time'' then
        Some ''I need the time for your appointment. Please clearly say: The time is, followed by a time like 10:00 AM.''
      else None)"

definition follow_up_text :: "string list \<Rightarrow> string option" where
  "follow_up_text missing =
     (if length missing = 1 then single_prompt (hd missing)
      else Some (''I still need your '' @ join '', '' (butlast missing) @ '' and ''
                 @ last missing @ ''. Please provide this information.''))"

definition append_history :: "state \<Rightarrow> string \<Rightarrow> string \<Rightarrow> string \<Rightarrow> state" where
  \<comment> \<open>\<open>conversation_history[call_sid].append({"role": role, "content": content})\<close>\<close>
  "append_history st call_sid role content =
     st\<lparr>conversation_history := (conversation_history st)
          (call_sid \<mapsto> (case conversation_history st call_sid of None \<Rightarrow> [] | Some h \<Rightarrow> h)
                        @ [(role, content)])\<rparr>"

text \<open>
  Lines 306-377: the decision on the reconciled draft, which is already in the session.
  A name left unbound by the \<open>if\<close>/\<open>elif\<close> chain is an error like any other.
\<close>

definition respond ::
  "'d env \<Rightarrow> 'd store \<Rightarrow> string option \<Rightarrow> state \<Rightarrow> string \<Rightarrow> draft
     \<Rightarrow> error + state \<times> response" where
  "respond env db llm_text st call_sid ad =
     (if missing_fields ad = [] then validate env db llm_text st call_sid ad
      else
        (case follow_up_text (missing_fields ad) of
           None \<Rightarrow> Inl KeyError
         | Some follow_up \<Rightarrow>
             Inr (append_history st call_sid ''assistant'' follow_up,
                  Response follow_up None True)))"

definition apology :: response where
  "apology = Response ''I'm sorry, I didn't understand that. Could you please try again?'' None True"

text \<open>
  \<open>conversation\<close> (lines 104-386) for a transcript \<open>speech_result\<close>, the called
  number, the dict \<open>extracted_data\<close> the language-model service returned for this turn
  and the text \<open>llm_text\<close> it gives for the confirmation, if any. The draft is written
  to the session by the assignment of line 304; an exception before it leaves the
  session as it was, and every exception ends in the apology.
\<close>

definition conversation ::
  "'d env \<Rightarrow> 'd store \<Rightarrow> state \<Rightarrow> string \<Rightarrow> string \<Rightarrow> string \<Rightarrow> (string \<times> pyval) list
     \<Rightarrow> string option \<Rightarrow> state \<times> response" where
  "conversation env db st call_sid speech_result recipient_number extracted_data llm_text =
     (let st1 = append_history st call_sid ''user'' speech_result;
          ad0 = (case appointment_data st call_sid of None \<Rightarrow> Map.empty | Some ad \<Rightarrow> ad)
      in case reconcile (str_other env) ad0 recipient_number speech_result extracted_data of
           Inl e \<Rightarrow> (st1, apology)
         | Inr ad \<Rightarrow>
             (case respond env db llm_text (set_draft st1 call_sid ad) call_sid ad of
                Inl e \<Rightarrow> (set_draft st1 call_sid ad, apology)
              | Inr result \<Rightarrow> result))"

section \<open>The confirmation webhook\<close>

text \<open>
  \<open>confirm_appointment\<close> (lines 388-504) for the parsed answer \<open>analysis\<close> of
  \<open>analyze_user_response\<close>. The session is a cookie session: it is written back only
  when an assignment, or a \<open>pop\<close> of a key it holds, has marked it modified, and then
  with the draft as the handler has changed it in place. The result is the new session state, the new store,
  the reply and the text message sent, if any.
\<close>

definition fix_phone :: "draft \<Rightarrow> string \<Rightarrow> string \<Rightarrow> draft" where
  \<comment> \<open>lines 406-408\<close>
  "fix_phone ad recipient_number caller_number =
     (if (case ad ''phone'' of
            None \<Rightarrow> True
          | Some p \<Rightarrow> \<not> truthy p \<or> py_eq p (PStr caller_number))
      then ad(''phone'' \<mapsto> PStr recipient_number) else ad)"

definition clear_session :: "state \<Rightarrow> string \<Rightarrow> state" where
  \<comment> \<open>the two \<open>session.pop\<close> of lines 445-446 and 485-486\<close>
  "clear_session st call_sid =
     st\<lparr>appointment_data := (appointment_data st)(call_sid := None),
        confirmation_state := (confirmation_state st)(call_sid := None)\<rparr>"

definition problem_reply :: response where
  "problem_reply = Response
     ''I'm sorry, there was a problem creating your appointment. Please try again later or call our office directly.''
     None False"

definition newline :: char where
  "newline = CHR 0x0A"

definition sms_text :: "(pyval \<Rightarrow> string) \<Rightarrow> draft \<Rightarrow> string option \<Rightarrow> int \<Rightarrow> string" where
  "sms_text other ad hospital_name appointment_id =
     ''Medicare Appointment Confirmation'' @ [newline]
     @ ''Patient: '' @ py_str other (get_default ad ''patient'' PNone) @ [newline]
     @ ''Date: '' @ py_str other (get_default ad ''date'' PNone) @ [newline]
     @ ''Time: '' @ py_str other (get_default ad ''time'' PNone) @ [newline]
     @ ''Hospital: '' @ (case hospital_name of None \<Rightarrow> ''None'' | Some n \<Rightarrow> n) @ [newline]
     @ ''Symptoms: '' @ py_str other (get_default ad ''symptoms'' PNone) @ [newline]
     @ ''Appointment ID: '' @ str_int appointment_id"

definition book ::
  "'d env \<Rightarrow> 'd store \<Rightarrow> state \<Rightarrow> string \<Rightarrow> draft
     \<Rightarrow> state \<times> 'd store \<times> response \<times> (pyval \<times> string) option" where
  \<comment> \<open>lines 424-463, the branch of a confirming answer\<close>
  "book env db st call_sid ad =
     (case create_appointment env db ad of
        (None, db') \<Rightarrow> (st, db', problem_reply, None)
      | (Some appointment_id, db') \<Rightarrow>
          if appointment_id = 0 then (st, db', problem_reply, None)
          else
            (case py_int (get_default ad ''hospital_id'' PNone) of
               Inl e \<Rightarrow> (st, db', problem_reply, None)
             | Inr hospital_id \<Rightarrow>
                 (clear_session st call_sid, db',
                  Response (''Great! Your appointment has been confirmed. Your appointment ID is ''
                     @ str_int appointment_id
                     @ ''. I've also sent you a text message with the details. Thank you for using Medicare's appointment booking service!'')
                    None False,
                  Some (get_default ad ''phone'' PNone,
                        sms_text (str_other env) ad
                          (snd (check_hospital_exists db' hospital_id)) appointment_id))))"

definition confirm_appointment ::
  "'d env \<Rightarrow> 'd store \<Rightarrow> state \<Rightarrow> string \<Rightarrow> string \<Rightarrow> string \<Rightarrow> pyval
     \<Rightarrow> state \<times> 'd store \<times> response \<times> (pyval \<times> string) option" where
  "confirm_appointment env db st call_sid recipient_number caller_number analysis =
     (let stored = appointment_data st call_sid;
          ad = fix_phone (case stored of None \<Rightarrow> Map.empty | Some a \<Rightarrow> a)
                 recipient_number caller_number;
          touched = (case stored of None \<Rightarrow> st | Some a \<Rightarrow> set_draft st call_sid ad)
      in if ad = Map.empty then
           (st, db,
            Response ''I'm sorry, we seem to have lost your appointment information. Let's start over. What appointment would you like to book?''
              (Some ''/api/conversation'') True,
            None)
         else
           (case analysis of
              PDict items \<Rightarrow>
                (let response_type = get_default (map_of items) ''response_type'' PNone in
                 if py_eq response_type (PStr ''confirm'') then book env db st call_sid ad
                 else if py_eq response_type (PStr ''correct'') then
                   ((if confirmation_state st call_sid = None then st
                     else touched\<lparr>confirmation_state :=
                            (confirmation_state st)(call_sid := None)\<rparr>), db,
                    Response ''I understand you want to make changes. What would you like to update about your appointment?''
                      (Some ''/api/conversation'') True,
                    None)
                 else if py_eq response_type (PStr ''cancel'') then
                   (clear_session st call_sid, db,
                    Response ''I understand you want to cancel. Your appointment has not been booked. Thank you for calling Medicare.''
                      None False,
                    None)
                 else
                   (st, db,
                    Response ''I'm sorry, I didn't understand your response. Please say 'yes' to confirm the appointment, 'no' to make changes, or 'cancel' to cancel.''
                      (Some ''/api/confirm_appointment'') True,
                    None))
            | _ \<Rightarrow>
                (st, db,
                 Response ''I'm sorry, we're experiencing technical difficulties. Please try again later.''
                   None False,
                 None)))"

section \<open>Cross-validating the two model answers\<close>

text \<open>
  llm/__init__.py, lines 107-132, for a first answer that \<open>json.loads\<close> turned into a
  dict \<open>data\<close>. The second answer is \<open>None\<close> when \<open>response2\<close> is empty or is
  not JSON, and the parsed value otherwise. When it is not a dict, \<open>field in data2\<close> is
  false or \<open>data2[field]\<close> raises before anything is assigned, and the bare
  \<open>except\<close> swallows it, so \<open>data\<close> stays as the first pass left it.
\<close>

definition expected_fields :: "string list" where
  "expected_fields = [''patient'', ''symptoms'', ''date'', ''time'', ''hospitalId'']"

fun first_pass :: "(string \<rightharpoonup> pyval) \<Rightarrow> string list \<Rightarrow> (string \<rightharpoonup> pyval)" where
  "first_pass data [] = data"
| "first_pass data (field # fs) =
     (case data field of
        None \<Rightarrow> first_pass (data(field \<mapsto> PNone)) fs
      | Some v \<Rightarrow>
          if py_eq v (PStr '''') then first_pass (data(field \<mapsto> PNone)) fs
          else first_pass data fs)"

fun second_pass ::
  "(string \<rightharpoonup> pyval) \<Rightarrow> (string \<rightharpoonup> pyval) \<Rightarrow> string list \<Rightarrow> (string \<rightharpoonup> pyval)" where
  "second_pass data2 data [] = data"
| "second_pass data2 data (field # fs) =
     (case data2 field of
        None \<Rightarrow> second_pass data2 data fs
      | Some v2 \<Rightarrow>
          (case data field of
             None \<Rightarrow> data \<comment> \<open>KeyError, swallowed by the bare \<open>except\<close>\<close>
           | Some v1 \<Rightarrow>
               if py_eq v2 v1 then second_pass data2 data fs
               else if v2 \<noteq> PNone \<and> v1 = PNone then second_pass data2 (data(field \<mapsto> v2)) fs
               else second_pass data2 data fs))"

definition cross_validate ::
  "(string \<times> pyval) list \<Rightarrow> pyval option \<Rightarrow> (string \<rightharpoonup> pyval)" where
  "cross_validate items1 response2 =
     (let data = first_pass (map_of items1) expected_fields
      in case response2 of
           Some (PDict items2) \<Rightarrow> second_pass (map_of items2) data expected_fields
         | _ \<Rightarrow> data)"

section \<open>Example data\<close>

text \<open>
  A store with the three hospitals of config.py and a slot of hospital 2 that holds three
  bookings; a date parser that accepts every string and returns it; a call whose draft
  lacks the hospital id only.
\<close>

definition example_env :: "string env" where
  "example_env = \<lparr>parse_date = Some, str_other = (\<lambda>v. ''?'')\<rparr>"

definition full_slot :: "int \<Rightarrow> string appointment" where
  "full_slot i = \<lparr>appt_id = i, appt_patient = PStr ''Ann Lee'', appt_phone = PStr ''+15550111'',
     appt_symptoms = PStr ''cough'', appt_latitude = PFloat 0, appt_longitude = PFloat 0,
     appt_date = ''2023-06-15'', appt_time = PStr ''10:00 am'', appt_hospital = 2,
     appt_alert = PList []\<rparr>"

definition example_store :: "string store" where
  "example_store = \<lparr>hospitals = [(1, ''Medicare General Hospital''), (2, ''City Medical Center''),
       (3, ''Community Health Hospital'')],
     appointments = [full_slot 1, full_slot 2, full_slot 3],
     next_id = 4,
     raises = (\<lambda>q. False)\<rparr>"

definition example_draft :: draft where
  "example_draft = [''phone'' \<mapsto> PStr ''+15550100'', ''patient'' \<mapsto> PStr ''John Smith'',
     ''symptoms'' \<mapsto> PStr ''headache'', ''date'' \<mapsto> PStr ''2023-06-15'',
     ''time'' \<mapsto> PStr ''10:00 am'']"

definition example_state :: state where
  "example_state = \<lparr>conversation_history = [''CA1'' \<mapsto> [(''user'', ''My name is John Smith'')]],
     appointment_data = [''CA1'' \<mapsto> example_draft],
     confirmation_state = Map.empty\<rparr>"

definition example_extracted :: "int \<Rightarrow> (string \<times> pyval) list" where
  \<comment> \<open>what \<open>extract_appointment_data\<close> returns for an answer that names a hospital only\<close>
  "example_extracted i = [(''patient'', PNone), (''symptoms'', PNone), (''date'', PNone),
     (''time'', PNone), (''hospital_id'', PInt i), (''latitude'', PFloat 0),
     (''longitude'', PFloat 0), (''alert'', PList [])]"

definition failing_store :: "string store" where
  \<comment> \<open>the example store, with a COUNT and an INSERT statement that raise\<close>
  "failing_store = example_store\<lparr>raises :=
     (\<lambda>q. case q of SelectHospital i \<Rightarrow> False | _ \<Rightarrow> True)\<rparr>"

definition confirming_state :: state where
  \<comment> \<open>the call after the confirmation summary for hospital 1 was read out\<close>
  "confirming_state = \<lparr>conversation_history = [''CA1'' \<mapsto> [(''user'', ''Hospital ID 1'')]],
     appointment_data = [''CA1'' \<mapsto> example_draft(''hospital_id'' \<mapsto> PInt 1,
       ''hospital_name'' \<mapsto> PStr ''Medicare General Hospital'')],
     confirmation_state = [''CA1'' \<mapsto> True]\<rparr>"

section \<open>Properties\<close>

lemma py_eq_None [simp]: "py_eq v PNone = (v = PNone)"
  by (cases v) auto

lemma py_eq_Str [simp]: "py_eq v (PStr s) = (v = PStr s)"
  by (cases v) auto

lemma first_pass_other: "f \<notin> set fs \<Longrightarrow> first_pass d fs f = d f"
  by (induction fs arbitrary: d) (auto split: option.splits)

lemma first_pass_field:
  "f \<in> set fs \<Longrightarrow> first_pass d fs f =
     Some (case d f of None \<Rightarrow> PNone | Some v \<Rightarrow> if v = PStr '''' then PNone else v)"
proof (induction fs arbitrary: d)
  case Nil then show ?case by simp
next
  case (Cons g fs)
  show ?case
  proof (cases "f \<in> set fs")
    case True
    with Cons.IH show ?thesis by (auto split: option.splits)
  next
    case False
    with Cons.prems have "g = f" by simp
    with False show ?thesis by (auto simp: first_pass_other split: option.splits)
  qed
qed

lemma first_pass_dom: "set fs \<subseteq> dom (first_pass d fs)"
  using first_pass_field by (auto simp: dom_def)

lemma second_pass_field:
  "set fs \<subseteq> dom d \<Longrightarrow> distinct fs \<Longrightarrow>
   second_pass d2 d fs f =
     (if f \<in> set fs then
        (case d2 f of None \<Rightarrow> d f
         | Some v2 \<Rightarrow> if d f = Some PNone \<and> v2 \<noteq> PNone then Some v2 else d f)
      else d f)"
proof (induction fs arbitrary: d)
  case Nil then show ?case by simp
next
  case (Cons g fs)
  then show ?case
    by (auto split: option.splits simp: dom_def subset_iff)
qed

lemma cross_validate_value:
  assumes "f \<in> set expected_fields"
  shows "cross_validate items1 (Some (PDict items2)) f =
    Some (let v1 = (case map_of items1 f of None \<Rightarrow> PNone
                    | Some v \<Rightarrow> if v = PStr '''' then PNone else v)
          in if v1 \<noteq> PNone then v1
             else (case map_of items2 f of None \<Rightarrow> PNone | Some v2 \<Rightarrow> v2))"
proof -
  have d: "distinct expected_fields" by (simp add: expected_fields_def)
  show ?thesis
    unfolding cross_validate_def Let_def
    using assms
    by (simp add: second_pass_field [OF first_pass_dom d] first_pass_field split: option.splits)
qed

text \<open>
  C3, as the code has it. For two answers parsed into dicts \<open>d1\<close> and \<open>d2\<close> and an
  expected field \<open>f\<close>: a value both carry is the result; a value only the first
  carries (the second has null or nothing) is the result unless it is the empty string,
  which the first pass has already turned into null; a value only the second carries (the
  first has nothing, null or the empty string) is the result; of two values that differ
  the first one's is the result, again unless it is the empty string.
\<close>

theorem cross_validate_field:
  assumes "f \<in> set expected_fields"
    and "r = cross_validate items1 (Some (PDict items2))"
    and "d1 = map_of items1" and "d2 = map_of items2"
  shows "(d1 f = Some v \<and> d2 f = Some v \<longrightarrow> r f = Some v)
    \<and> (d1 f = Some v \<and> v \<noteq> PNone \<and> v \<noteq> PStr '''' \<and> (d2 f = None \<or> d2 f = Some PNone)
          \<longrightarrow> r f = Some v)
    \<and> ((d1 f = None \<or> d1 f = Some PNone \<or> d1 f = Some (PStr '''')) \<and> d2 f = Some v
          \<and> v \<noteq> PNone \<longrightarrow> r f = Some v)
    \<and> (d1 f = Some v \<and> d2 f = Some w \<and> v \<noteq> PNone \<and> v \<noteq> PStr '''' \<and> w \<noteq> PNone \<and> w \<noteq> v
          \<longrightarrow> r f = Some v)"
  using assms by (auto simp: cross_validate_value)

theorem cross_validate_field_witness:
  "cross_validate [(''patient'', PStr ''John Smith''), (''date'', PNone), (''time'', PStr ''10:00 AM'')]
     (Some (PDict [(''patient'', PStr ''John''), (''date'', PStr ''2023-06-15''),
                   (''time'', PStr ''10:00 AM'')])) ''patient'' = Some (PStr ''John Smith'')
   \<and> cross_validate [(''patient'', PStr ''John Smith''), (''date'', PNone), (''time'', PStr ''10:00 AM'')]
     (Some (PDict [(''patient'', PStr ''John''), (''date'', PStr ''2023-06-15''),
                   (''time'', PStr ''10:00 AM'')])) ''date'' = Some (PStr ''2023-06-15'')
   \<and> cross_validate [(''patient'', PStr ''John Smith''), (''date'', PNone), (''time'', PStr ''10:00 AM'')]
     (Some (PDict [(''patient'', PStr ''John''), (''date'', PStr ''2023-06-15''),
                   (''time'', PStr ''10:00 AM'')])) ''time'' = Some (PStr ''10:00 AM'')"
proof -
  let ?i1 = "[(''patient'', PStr ''John Smith''), (''date'', PNone), (''time'', PStr ''10:00 AM'')]"
  let ?i2 = "[(''patient'', PStr ''John''), (''date'', PStr ''2023-06-15''),
              (''time'', PStr ''10:00 AM'')]"
  have p: "''patient'' \<in> set expected_fields" and d: "''date'' \<in> set expected_fields"
    and t: "''time'' \<in> set expected_fields"
    by (simp_all add: expected_fields_def)
  from cross_validate_field [OF p refl refl refl, where ?items1.0 = ?i1 and ?items2.0 = ?i2
      and v = "PStr ''John Smith''" and w = "PStr ''John''"]
  have 1: "cross_validate ?i1 (Some (PDict ?i2)) ''patient'' = Some (PStr ''John Smith'')"
    by simp
  from cross_validate_field [OF d refl refl refl, where ?items1.0 = ?i1 and ?items2.0 = ?i2
      and v = "PStr ''2023-06-15''"]
  have 2: "cross_validate ?i1 (Some (PDict ?i2)) ''date'' = Some (PStr ''2023-06-15'')"
    by simp
  from cross_validate_field [OF t refl refl refl, where ?items1.0 = ?i1 and ?items2.0 = ?i2
      and v = "PStr ''10:00 AM''"]
  have 3: "cross_validate ?i1 (Some (PDict ?i2)) ''time'' = Some (PStr ''10:00 AM'')"
    by simp
  from 1 2 3 show ?thesis by simp
qed

text \<open>
  C3 as stated fails where the first answer carries the empty string: it is not null and
  differs from the second answer's value, yet the result is the second answer's value.
\<close>

theorem cross_validate_empty_string_counterexample:
  "map_of [(''patient'', PStr '''')] ''patient'' = Some (PStr '''')
   \<and> map_of [(''patient'', PStr ''John'')] ''patient'' = Some (PStr ''John'')
   \<and> PStr '''' \<noteq> PNone \<and> PStr ''John'' \<noteq> PNone \<and> PStr '''' \<noteq> PStr ''John''
   \<and> ''patient'' \<in> set expected_fields
   \<and> cross_validate [(''patient'', PStr '''')] (Some (PDict [(''patient'', PStr ''John'')]))
        ''patient'' = Some (PStr ''John'')
   \<and> cross_validate [(''patient'', PStr '''')] (Some (PDict [(''patient'', PStr ''John'')]))
        ''patient'' \<noteq> Some (PStr '''')"
  by (simp add: cross_validate_def expected_fields_def)

text \<open>
  C2, as the code has it. For a candidate patient name \<open>c\<close> that is a non-empty string,
  and a draft whose patient is absent or a string: the literal texts \<open>null\<close>,
  \<open>NULL\<close> and \<open>None\<close> are rejected and the draft stays as it is; any other candidate
  replaces the patient exactly when the draft has no patient, an empty one, the placeholder
  \<open>null\<close>, or one strictly shorter than the candidate.
\<close>

theorem merge_patient_candidate:
  assumes "ad ''patient'' = None \<or> (\<exists>p. ad ''patient'' = Some (PStr p))"
    and "c \<noteq> ''''"
  shows "merge_entry ad (''patient'', PStr c) =
    Inr (if c = ''null'' \<or> c = ''NULL'' \<or> c = ''None'' then ad
         else if (case ad ''patient'' of
                    Some (PStr p) \<Rightarrow> p = '''' \<or> p = ''null'' \<or> length p < length c
                  | _ \<Rightarrow> True)
         then ad(''patient'' \<mapsto> PStr c) else ad)"
  using assms by (auto split: option.splits)

theorem merge_patient_candidate_witness:
  "merge_entry [''patient'' \<mapsto> PStr ''John''] (''patient'', PStr ''John Smith'')
     = Inr [''patient'' \<mapsto> PStr ''John Smith'']
   \<and> merge_entry [''patient'' \<mapsto> PStr ''John Smith''] (''patient'', PStr ''Jane'')
     = Inr [''patient'' \<mapsto> PStr ''John Smith'']
   \<and> merge_entry [''patient'' \<mapsto> PStr ''John''] (''patient'', PStr ''None'')
     = Inr [''patient'' \<mapsto> PStr ''John'']"
proof -
  have a: "[''patient'' \<mapsto> PStr ''John''] ''patient'' = None
      \<or> (\<exists>p. [''patient'' \<mapsto> PStr ''John''] ''patient'' = Some (PStr p))"
    and b: "[''patient'' \<mapsto> PStr ''John Smith''] ''patient'' = None
      \<or> (\<exists>p. [''patient'' \<mapsto> PStr ''John Smith''] ''patient'' = Some (PStr p))"
    by simp_all
  have 1: "merge_entry [''patient'' \<mapsto> PStr ''John''] (''patient'', PStr ''John Smith'')
     = Inr [''patient'' \<mapsto> PStr ''John Smith'']"
    using a merge_patient_candidate [where ad = "[''patient'' \<mapsto> PStr ''John'']"
        and c = "''John Smith''"] by simp
  have 2: "merge_entry [''patient'' \<mapsto> PStr ''John Smith''] (''patient'', PStr ''Jane'')
     = Inr [''patient'' \<mapsto> PStr ''John Smith'']"
    using b merge_patient_candidate [where ad = "[''patient'' \<mapsto> PStr ''John Smith'']"
        and c = "''Jane''"] by simp
  have 3: "merge_entry [''patient'' \<mapsto> PStr ''John''] (''patient'', PStr ''None'')
     = Inr [''patient'' \<mapsto> PStr ''John'']"
    using a merge_patient_candidate [where ad = "[''patient'' \<mapsto> PStr ''John'']"
        and c = "''None''"] by simp
  from 1 2 3 show ?thesis by simp
qed

text \<open>
  C2 as stated fails at the candidate \<open>NULL\<close>: it is neither \<open>null\<close> nor
  \<open>None\<close> and the draft has no patient yet, but the draft is left without a patient.
\<close>

theorem merge_patient_upper_null_counterexample:
  "''NULL'' \<noteq> ''null'' \<and> ''NULL'' \<noteq> ''None''
   \<and> [''phone'' \<mapsto> PStr ''+15550100''] ''patient'' = None
   \<and> merge_entry [''phone'' \<mapsto> PStr ''+15550100''] (''patient'', PStr ''NULL'')
       = Inr [''phone'' \<mapsto> PStr ''+15550100'']"
  by simp

lemma merge_entry_keeps:
  assumes "key \<noteq> ''patient''" and "ad key = Some v" and "truthy v"
    and "merge_entry ad kv = Inr ad'"
  shows "ad' key = Some v"
  using assms by (cases kv) (auto simp: unset_def split: if_splits option.splits sum.splits)

lemma merge_llm_keeps:
  assumes "key \<noteq> ''patient''" and "ad key = Some v" and "truthy v"
    and "merge_llm ad kvs = Inr ad'"
  shows "ad' key = Some v"
  using assms
proof (induction kvs arbitrary: ad)
  case Nil then show ?case by simp
next
  case (Cons kv kvs)
  then obtain ad1 where a: "merge_entry ad kv = Inr ad1" and b: "merge_llm ad1 kvs = Inr ad'"
    by (auto split: sum.splits)
  from merge_entry_keeps [OF Cons.prems(1,2,3) a] have "ad1 key = Some v" .
  from Cons.IH [OF Cons.prems(1) this Cons.prems(3) b] show ?case .
qed

subsection \<open>Evaluation\<close>

lemmas string_defs = is_upper_def is_lower_def is_alpha_def is_digit_def is_space_def
  upper_letters_def lower_letters_def lower_char_def upper_char_def lower_def py_strip_def py_split_def title_def capitalize_def
  isalpha_def replace_def str_int_def int_of_str_def is_int_space_def dec.simps

lemmas re_defs = opt_def plus_def lazy_plus_def digit_def digits12_def spaces_def dot_def sp_def

lemmas extractor_defs = apostrophe_def name_span_def name_patterns_def stop_words_def
  clean_words_def name_keywords_def extract_name_def number_span_def hospital_patterns_def
  year_def iso_date_def slash_def numeric_date_def month_date_def date_patterns_def clock_def
  ampm_time_def time_patterns_def symptom_markers_def symptom_span_def symptoms_patterns_def
  explicit_symptoms_def common_phrases_def residual_symptoms_def capture_symptoms_def
  set_str_def capture_fields_def direct_capture_def reconcile_def

lemmas example_defs = example_env_def example_store_def full_slot_def example_state_def
  example_draft_def example_extracted_def failing_store_def confirming_state_def

subsection \<open>The decision on the reconciled draft\<close>

lemma missing_fields_empty:
  "missing_fields ad = [] \<longleftrightarrow> (\<forall>f \<in> set required_fields. \<exists>v. ad f = Some v \<and> truthy v)"
  by (auto simp: missing_fields_def filter_empty_conv unset_def split: option.splits)

lemma missing_fields_filter:
  "missing_fields ad =
     filter (\<lambda>f. case ad f of None \<Rightarrow> True | Some v \<Rightarrow> \<not> truthy v)
       [''patient'', ''symptoms'', ''date'', ''time'', ''hospital_id'']"
  by (simp add: missing_fields_def required_fields_def unset_def)

lemma set_draft_history [simp]:
  "conversation_history (set_draft st sid ad) = conversation_history st"
  by (simp add: set_draft_def)

lemma validate_history:
  assumes "validate env db llm_text st sid ad = Inr (st', r)"
  shows "conversation_history st' = conversation_history st"
proof (cases "ad ''hospital_id''")
  case None
  with assms show ?thesis by (simp add: validate_def)
next
  case (Some h)
  show ?thesis
  proof (cases "py_int h")
    case (Inl e)
    with Some assms show ?thesis by (simp add: validate_def)
  next
    case (Inr hid)
    obtain ex name where c: "check_hospital_exists db hid = (ex, name)"
      by (cases "check_hospital_exists db hid") auto
    show ?thesis
    proof (cases ex)
      case False
      with Some Inr c assms show ?thesis by (auto simp: validate_def)
    next
      case True
      show ?thesis
      proof (cases "ad ''date''")
        case None
        with Some Inr c True assms show ?thesis by (simp add: validate_def)
      next
        case (Some d)
        note d = this
        show ?thesis
        proof (cases "ad ''time''")
          case None
          with \<open>ad ''hospital_id'' = Some h\<close> Inr c True d assms show ?thesis
            by (simp add: validate_def)
        next
          case (Some t)
          obtain ad2 msg where v:
            "verify_appointment_details (str_other env) llm_text ad name = (ad2, msg)"
            by (cases "verify_appointment_details (str_other env) llm_text ad name") auto
          from \<open>ad ''hospital_id'' = Some h\<close> Inr c True d Some v assms show ?thesis
            by (cases "check_appointment_availability env db hid d t")
               (auto simp: validate_def)
        qed
      qed
    qed
  qed
qed

lemma respond_single:
  assumes "missing_fields ad = [f]" and "single_prompt f = Some p"
  shows "respond env db llm_text st sid ad =
    Inr (append_history st sid ''assistant'' p, Response p None True)"
  using assms by (simp add: respond_def follow_up_text_def)

text \<open>
  C7. Let \<open>m\<close> be the required fields, in the order patient, symptoms, date, time,
  hospital_id, that the reconciled draft lacks or holds as a false value (empty; for the
  hospital id also 0). If \<open>m\<close> is empty, the handler's answer is the one of the
  validation, and it adds no follow-up to the call's history. If \<open>m\<close> is one field, the
  answer is that field's own fixed prompt, one of five texts. If \<open>m\<close> has several
  fields, the answer is the sentence that lists them, \<open>I still need your A, B and C.\<close>,
  followed by \<open>Please provide this information.\<close> In the follow-up cases the question
  is appended to the call's history and speech is gathered on the conversation webhook.
\<close>

theorem respond_by_missing:
  assumes "m = filter (\<lambda>f. case ad f of None \<Rightarrow> True | Some v \<Rightarrow> \<not> truthy v)
                 [''patient'', ''symptoms'', ''date'', ''time'', ''hospital_id'']"
    and "r = respond env db llm_text st sid ad"
  shows "(m = [] \<longrightarrow> r = validate env db llm_text st sid ad
            \<and> (\<forall>st' reply. r = Inr (st', reply)
                  \<longrightarrow> conversation_history st' = conversation_history st))
   \<and> (m = [''patient''] \<longrightarrow> r = Inr (append_history st sid ''assistant''
          ''I still need your full name. Please clearly say: My name is followed by your full name.'',
        Response ''I still need your full name. Please clearly say: My name is followed by your full name.''
          None True))
   \<and> (m = [''hospital_id''] \<longrightarrow> r = Inr (append_history st sid ''assistant''
          ''I need the hospital ID number. Please clearly say: Hospital ID followed by a number between 1 and 10.'',
        Response ''I need the hospital ID number. Please clearly say: Hospital ID followed by a number between 1 and 10.''
          None True))
   \<and> (m = [''symptoms''] \<longrightarrow> r = Inr (append_history st sid ''assistant''
          ''I need to know why you're booking this appointment. Please clearly say: My symptoms are, followed by your health concern.'',
        Response ''I need to know why you're booking this appointment. Please clearly say: My symptoms are, followed by your health concern.''
          None True))
   \<and> (m = [''date''] \<longrightarrow> r = Inr (append_history st sid ''assistant''
          ''I need the date for your appointment. Please clearly say: The date is, followed by a date like 2023-06-15.'',
        Response ''I need the date for your appointment. Please clearly say: The date is, followed by a date like 2023-06-15.''
          None True))
   \<and> (m = [''time''] \<longrightarrow> r = Inr (append_history st sid ''assistant''
          ''I need the time for your appointment. Please clearly say: The time is, followed by a time like 10:00 AM.'',
        Response ''I need the time for your appointment. Please clearly say: The time is, followed by a time like 10:00 AM.''
          None True))
   \<and> (2 \<le> length m \<longrightarrow> r = Inr (append_history st sid ''assistant''
          (''I still need your '' @ join '', '' (butlast m) @ '' and '' @ last m
           @ ''. Please provide this information.''),
        Response
          (''I still need your '' @ join '', '' (butlast m) @ '' and '' @ last m
           @ ''. Please provide this information.'')
          None True))"
proof -
  have m: "m = missing_fields ad" using assms(1) by (simp add: missing_fields_filter)
  have 0: "m = [] \<longrightarrow> r = validate env db llm_text st sid ad
            \<and> (\<forall>st' reply. r = Inr (st', reply)
                  \<longrightarrow> conversation_history st' = conversation_history st)"
  proof
    assume "m = []"
    then have e: "r = validate env db llm_text st sid ad"
      by (simp add: m assms(2) respond_def)
    moreover have "\<forall>st' reply. r = Inr (st', reply)
                  \<longrightarrow> conversation_history st' = conversation_history st"
      unfolding e using validate_history by blast
    ultimately show "r = validate env db llm_text st sid ad
            \<and> (\<forall>st' reply. r = Inr (st', reply)
                  \<longrightarrow> conversation_history st' = conversation_history st)"
      by (rule conjI)
  qed
  have 1: "single_prompt f = Some p \<Longrightarrow>
      m = [f] \<longrightarrow> r = Inr (append_history st sid ''assistant'' p, Response p None True)"
    for f p
  proof
    assume "single_prompt f = Some p" and "m = [f]"
    then show "r = Inr (append_history st sid ''assistant'' p, Response p None True)"
      using respond_single [of ad f p env db llm_text st sid] by (simp add: m assms(2))
  qed
  have 2: "2 \<le> length m \<longrightarrow> r = Inr (append_history st sid ''assistant''
          (''I still need your '' @ join '', '' (butlast m) @ '' and '' @ last m
           @ ''. Please provide this information.''),
        Response
          (''I still need your '' @ join '', '' (butlast m) @ '' and '' @ last m
           @ ''. Please provide this information.'')
          None True)"
  proof
    assume "2 \<le> length m"
    then have "missing_fields ad \<noteq> []" and "length (missing_fields ad) \<noteq> 1"
      by (auto simp: m)
    then have "respond env db llm_text st sid ad = Inr (append_history st sid ''assistant''
          (''I still need your '' @ join '', '' (butlast (missing_fields ad)) @ '' and ''
           @ last (missing_fields ad) @ ''. Please provide this information.''),
        Response
          (''I still need your '' @ join '', '' (butlast (missing_fields ad)) @ '' and ''
           @ last (missing_fields ad) @ ''. Please provide this information.'')
          None True)"
      by (simp add: respond_def follow_up_text_def)
    then show "r = Inr (append_history st sid ''assistant''
          (''I still need your '' @ join '', '' (butlast m) @ '' and '' @ last m
           @ ''. Please provide this information.''),
        Response
          (''I still need your '' @ join '', '' (butlast m) @ '' and '' @ last m
           @ ''. Please provide this information.'')
          None True)"
      unfolding m assms(2) .
  qed
  have p: "single_prompt ''patient'' = Some ''I still need your full name. Please clearly say: My name is followed by your full name.''"
    and h: "single_prompt ''hospital_id'' = Some ''I need the hospital ID number. Please clearly say: Hospital ID followed by a number between 1 and 10.''"
    and s: "single_prompt ''symptoms'' = Some ''I need to know why you're booking this appointment. Please clearly say: My symptoms are, followed by your health concern.''"
    and d: "single_prompt ''date'' = Some ''I need the date for your appointment. Please clearly say: The date is, followed by a date like 2023-06-15.''"
    and t: "single_prompt ''time'' = Some ''I need the time for your appointment. Please clearly say: The time is, followed by a time like 10:00 AM.''"
    by (simp_all add: single_prompt_def)
  from 0 1 [OF p] 1 [OF h] 1 [OF s] 1 [OF d] 1 [OF t] 2
  show ?thesis by (intro conjI)
qed

theorem respond_by_missing_witness:
  "respond example_env example_store None example_state ''CA1'' (example_draft(''hospital_id'' \<mapsto> PInt 2))
     = validate example_env example_store None example_state ''CA1'' (example_draft(''hospital_id'' \<mapsto> PInt 2))
   \<and> respond example_env example_store None example_state ''CA1'' ((example_draft(''hospital_id'' \<mapsto> PInt 2))(''patient'' := None))
     = Inr (append_history example_state ''CA1'' ''assistant''
              ''I still need your full name. Please clearly say: My name is followed by your full name.'',
            Response ''I still need your full name. Please clearly say: My name is followed by your full name.''
              None True)
   \<and> respond example_env example_store None example_state ''CA1'' (example_draft)
     = Inr (append_history example_state ''CA1'' ''assistant''
              ''I need the hospital ID number. Please clearly say: Hospital ID followed by a number between 1 and 10.'',
            Response ''I need the hospital ID number. Please clearly say: Hospital ID followed by a number between 1 and 10.''
              None True)
   \<and> respond example_env example_store None example_state ''CA1'' ((example_draft(''hospital_id'' \<mapsto> PInt 2))(''symptoms'' := None))
     = Inr (append_history example_state ''CA1'' ''assistant''
              ''I need to know why you're booking this appointment. Please clearly say: My symptoms are, followed by your health concern.'',
            Response ''I need to know why you're booking this appointment. Please clearly say: My symptoms are, followed by your health concern.''
              None True)
   \<and> respond example_env example_store None example_state ''CA1'' ((example_draft(''hospital_id'' \<mapsto> PInt 2))(''date'' := None))
     = Inr (append_history example_state ''CA1'' ''assistant''
              ''I need the date for your appointment. Please clearly say: The date is, followed by a date like 2023-06-15.'',
            Response ''I need the date for your appointment. Please clearly say: The date is, followed by a date like 2023-06-15.''
              None True)
   \<and> respond example_env example_store None example_state ''CA1'' ((example_draft(''hospital_id'' \<mapsto> PInt 2))(''time'' := None))
     = Inr (append_history example_state ''CA1'' ''assistant''
              ''I need the time for your appointment. Please clearly say: The time is, followed by a time like 10:00 AM.'',
            Response ''I need the time for your appointment. Please clearly say: The time is, followed by a time like 10:00 AM.''
              None True)
   \<and> respond example_env example_store None example_state ''CA1'' ([''phone'' \<mapsto> PStr ''+15550100'', ''patient'' \<mapsto> PStr ''John Smith''])
     = Inr (append_history example_state ''CA1'' ''assistant''
              ''I still need your symptoms, date, time and hospital_id. Please provide this information.'',
            Response ''I still need your symptoms, date, time and hospital_id. Please provide this information.''
              None True)
   \<and> respond example_env example_store None example_state ''CA1'' ((example_draft(''hospital_id'' \<mapsto> PInt 2))(''date'' := None, ''time'' := None))
     = Inr (append_history example_state ''CA1'' ''assistant''
              ''I still need your date and time. Please provide this information.'',
            Response ''I still need your date and time. Please provide this information.''
              None True)"
proof -
  have f0: "respond example_env example_store None example_state ''CA1'' (example_draft(''hospital_id'' \<mapsto> PInt 2))
     = validate example_env example_store None example_state ''CA1'' (example_draft(''hospital_id'' \<mapsto> PInt 2))"
    using respond_by_missing [where ad = "example_draft(''hospital_id'' \<mapsto> PInt 2)" and env = example_env
        and db = example_store and llm_text = None and st = example_state and sid = "''CA1''",
        OF refl refl]
    by (simp add: example_draft_def)
  have f1: "respond example_env example_store None example_state ''CA1'' ((example_draft(''hospital_id'' \<mapsto> PInt 2))(''patient'' := None))
     = Inr (append_history example_state ''CA1'' ''assistant''
              ''I still need your full name. Please clearly say: My name is followed by your full name.'',
            Response ''I still need your full name. Please clearly say: My name is followed by your full name.''
              None True)"
    using respond_by_missing [where ad = "(example_draft(''hospital_id'' \<mapsto> PInt 2))(''patient'' := None)" and env = example_env
        and db = example_store and llm_text = None and st = example_state and sid = "''CA1''",
        OF refl refl]
    by (simp add: example_draft_def)
  have f2: "respond example_env example_store None example_state ''CA1'' (example_draft)
     = Inr (append_history example_state ''CA1'' ''assistant''
              ''I need the hospital ID number. Please clearly say: Hospital ID followed by a number between 1 and 10.'',
            Response ''I need the hospital ID number. Please clearly say: Hospital ID followed by a number between 1 and 10.''
              None True)"
    using respond_by_missing [where ad = "example_draft" and env = example_env
        and db = example_store and llm_text = None and st = example_state and sid = "''CA1''",
        OF refl refl]
    by (simp add: example_draft_def)
  have f3: "respond example_env example_store None example_state ''CA1'' ((example_draft(''hospital_id'' \<mapsto> PInt 2))(''symptoms'' := None))
     = Inr (append_history example_state ''CA1'' ''assistant''
              ''I need to know why you're booking this appointment. Please clearly say: My symptoms are, followed by your health concern.'',
            Response ''I need to know why you're booking this appointment. Please clearly say: My symptoms are, followed by your health concern.''
              None True)"
    using respond_by_missing [where ad = "(example_draft(''hospital_id'' \<mapsto> PInt 2))(''symptoms'' := None)" and env = example_env
        and db = example_store and llm_text = None and st = example_state and sid = "''CA1''",
        OF refl refl]
    by (simp add: example_draft_def)
  have f4: "respond example_env example_store None example_state ''CA1'' ((example_draft(''hospital_id'' \<mapsto> PInt 2))(''date'' := None))
     = Inr (append_history example_state ''CA1'' ''assistant''
              ''I need the date for your appointment. Please clearly say: The date is, followed by a date like 2023-06-15.'',
            Response ''I need the date for your appointment. Please clearly say: The date is, followed by a date like 2023-06-15.''
              None True)"
    using respond_by_missing [where ad = "(example_draft(''hospital_id'' \<mapsto> PInt 2))(''date'' := None)" and env = example_env
        and db = example_store and llm_text = None and st = example_state and sid = "''CA1''",
        OF refl refl]
    by (simp add: example_draft_def)
  have f5: "respond example_env example_store None example_state ''CA1'' ((example_draft(''hospital_id'' \<mapsto> PInt 2))(''time'' := None))
     = Inr (append_history example_state ''CA1'' ''assistant''
              ''I need the time for your appointment. Please clearly say: The time is, followed by a time like 10:00 AM.'',
            Response ''I need the time for your appointment. Please clearly say: The time is, followed by a time like 10:00 AM.''
              None True)"
    using respond_by_missing [where ad = "(example_draft(''hospital_id'' \<mapsto> PInt 2))(''time'' := None)" and env = example_env
        and db = example_store and llm_text = None and st = example_state and sid = "''CA1''",
        OF refl refl]
    by (simp add: example_draft_def)
  have f6: "respond example_env example_store None example_state ''CA1'' ([''phone'' \<mapsto> PStr ''+15550100'', ''patient'' \<mapsto> PStr ''John Smith''])
     = Inr (append_history example_state ''CA1'' ''assistant''
              ''I still need your symptoms, date, time and hospital_id. Please provide this information.'',
            Response ''I still need your symptoms, date, time and hospital_id. Please provide this information.''
              None True)"
    using respond_by_missing [where ad = "[''phone'' \<mapsto> PStr ''+15550100'', ''patient'' \<mapsto> PStr ''John Smith'']" and env = example_env
        and db = example_store and llm_text = None and st = example_state and sid = "''CA1''",
        OF refl refl]
    by (simp add: example_draft_def)
  have f7: "respond example_env example_store None example_state ''CA1'' ((example_draft(''hospital_id'' \<mapsto> PInt 2))(''date'' := None, ''time'' := None))
     = Inr (append_history example_state ''CA1'' ''assistant''
              ''I still need your date and time. Please provide this information.'',
            Response ''I still need your date and time. Please provide this information.''
              None True)"
    using respond_by_missing [where ad = "(example_draft(''hospital_id'' \<mapsto> PInt 2))(''date'' := None, ''time'' := None)" and env = example_env
        and db = example_store and llm_text = None and st = example_state and sid = "''CA1''",
        OF refl refl]
    by (simp add: example_draft_def)
  from f0 f1 f2 f3 f4 f5 f6 f7 show ?thesis by (intro conjI)
qed

lemma check_hospital_absent:
  assumes "hid \<notin> fst ` set (hospitals db)"
  shows "check_hospital_exists db hid = (False, None)"
proof -
  have "find (\<lambda>row. fst row = hid) (hospitals db) = None"
    using assms by (force simp: find_None_iff)
  then show ?thesis by (simp add: check_hospital_exists_def)
qed

subsection \<open>Validation\<close>

lemma conversation_complete:
  assumes "reconcile (str_other env) (case appointment_data st sid of None \<Rightarrow> Map.empty | Some a \<Rightarrow> a)
             rcpt speech extracted = Inr ad"
    and "missing_fields ad = []"
  shows "conversation env db st sid speech rcpt extracted llm_text =
    (case validate env db llm_text (set_draft (append_history st sid ''user'' speech) sid ad) sid ad of
       Inl e \<Rightarrow> (set_draft (append_history st sid ''user'' speech) sid ad, apology)
     | Inr result \<Rightarrow> result)"
  using assms by (simp add: conversation_def respond_def Let_def)

lemma unavailable_slot:
  assumes "reconcile (str_other env) (case appointment_data st sid of None \<Rightarrow> Map.empty | Some a \<Rightarrow> a)
             rcpt speech extracted = Inr ad"
    and "\<forall>f \<in> set required_fields. \<exists>v. ad f = Some v \<and> truthy v"
    and "ad ''hospital_id'' = Some h" and "py_int h = Inr hid"
    and "fst (check_hospital_exists db hid)"
    and "ad ''date'' = Some dv" and "ad ''time'' = Some t"
    and "\<not> check_appointment_availability env db hid dv t"
    and "conversation env db st sid speech rcpt extracted llm_text = (st', reply)"
  shows "appointment_data st' sid = Some (ad(''time'' := None))
    \<and> confirmation_state st' = confirmation_state st
    \<and> reply = Response (''I'm sorry, but the time slot at '' @ py_str (str_other env) t
        @ '' on '' @ py_str (str_other env) dv
        @ '' is fully booked. Please suggest a different time.'') None True"
proof -
  from assms(2) have m: "missing_fields ad = []" by (simp add: missing_fields_empty)
  obtain ex name where c: "check_hospital_exists db hid = (ex, name)"
    by (cases "check_hospital_exists db hid") auto
  with assms(5) have ex by simp
  with c assms(3,4,6,7,8,9) conversation_complete [OF assms(1) m, of db llm_text]
  show ?thesis
    by (auto simp: validate_def set_draft_def append_history_def)
qed

text \<open>
  C4. For a turn whose reconciled draft is complete and whose hospital id converts to an
  integer that no row of the hospital table has, the handler stores the draft without
  its \<open>hospital_id\<close> (the other fields as reconciled), leaves the confirmation flags as
  they were, and answers, on the conversation webhook, with the prompt for another
  hospital ID between 1 and 10.
\<close>

theorem unknown_hospital:
  assumes "reconcile (str_other env) (case appointment_data st sid of None \<Rightarrow> Map.empty | Some a \<Rightarrow> a)
             rcpt speech extracted = Inr ad"
    and "\<forall>f \<in> set required_fields. \<exists>v. ad f = Some v \<and> truthy v"
    and "ad ''hospital_id'' = Some h" and "py_int h = Inr hid"
    and "hid \<notin> fst ` set (hospitals db)"
    and "conversation env db st sid speech rcpt extracted llm_text = (st', reply)"
  shows "appointment_data st' sid = Some (ad(''hospital_id'' := None))
    \<and> confirmation_state st' = confirmation_state st
    \<and> reply = Response (''I'm sorry, the hospital with ID '' @ py_str (str_other env) h
        @ '' doesn't exist in our system. Please say a different hospital ID between 1 and 10.'')
        None True"
proof -
  from assms(2) have m: "missing_fields ad = []" by (simp add: missing_fields_empty)
  from assms(2) obtain d t where "ad ''date'' = Some d" "ad ''time'' = Some t"
    by (auto simp: required_fields_def)
  with assms(3,4,5,6) conversation_complete [OF assms(1) m, of db llm_text]
  show ?thesis
    by (auto simp: validate_def check_hospital_absent set_draft_def append_history_def)
qed

lemma reconcile_example:
  "reconcile (str_other example_env)
     (case appointment_data example_state ''CA1'' of None \<Rightarrow> Map.empty | Some a \<Rightarrow> a)
     ''+15550100'' ''Hospital ID 7'' (example_extracted 7)
   = Inr (example_draft(''hospital_id'' \<mapsto> PInt 7, ''latitude'' \<mapsto> PFloat 0,
            ''longitude'' \<mapsto> PFloat 0, ''alert'' \<mapsto> PList []))"
  by (simp add: example_defs string_defs re_defs extractor_defs unset_def)

theorem unknown_hospital_witness:
  "appointment_data
     (fst (conversation example_env example_store example_state ''CA1'' ''Hospital ID 7''
             ''+15550100'' (example_extracted 7) None)) ''CA1''
     = Some ((example_draft(''hospital_id'' \<mapsto> PInt 7, ''latitude'' \<mapsto> PFloat 0,
                ''longitude'' \<mapsto> PFloat 0, ''alert'' \<mapsto> PList []))(''hospital_id'' := None))
   \<and> confirmation_state
       (fst (conversation example_env example_store example_state ''CA1'' ''Hospital ID 7''
               ''+15550100'' (example_extracted 7) None)) = Map.empty
   \<and> snd (conversation example_env example_store example_state ''CA1'' ''Hospital ID 7''
             ''+15550100'' (example_extracted 7) None)
     = Response ''I'm sorry, the hospital with ID 7 doesn't exist in our system. Please say a different hospital ID between 1 and 10.''
         None True"
proof -
  let ?ad = "example_draft(''hospital_id'' \<mapsto> PInt 7, ''latitude'' \<mapsto> PFloat 0,
               ''longitude'' \<mapsto> PFloat 0, ''alert'' \<mapsto> PList [])"
  let ?c = "conversation example_env example_store example_state ''CA1'' ''Hospital ID 7''
              ''+15550100'' (example_extracted 7) None"
  have full: "\<forall>f \<in> set required_fields. \<exists>v. ?ad f = Some v \<and> truthy v"
    by (simp add: required_fields_def example_draft_def)
  have h: "?ad ''hospital_id'' = Some (PInt 7)" by simp
  have i: "py_int (PInt 7) = Inr 7" by simp
  have a: "7 \<notin> fst ` set (hospitals example_store)" by (simp add: example_store_def)
  have c: "?c = (fst ?c, snd ?c)" by simp
  have t: "py_str (str_other example_env) (PInt 7) = ''7''" by (simp add: string_defs)
  have s: "confirmation_state example_state = Map.empty" by (simp add: example_state_def)
  note r = unknown_hospital [OF reconcile_example full h i a c]
  from r have f1: "appointment_data (fst ?c) ''CA1'' = Some (?ad(''hospital_id'' := None))"
    by (rule conjunct1)
  from r have f2: "confirmation_state (fst ?c) = Map.empty"
    unfolding s by blast
  from r have f3: "snd ?c = Response ''I'm sorry, the hospital with ID 7 doesn't exist in our system. Please say a different hospital ID between 1 and 10.''
         None True"
    unfolding t by simp
  from f1 f2 f3 show ?thesis by (intro conjI)
qed

lemma hospital_found:
  "\<not> raises db (SelectHospital hid) \<Longrightarrow> hid \<in> fst ` set (hospitals db)
   \<Longrightarrow> fst (check_hospital_exists db hid)"
  by (auto simp: check_hospital_exists_def find_None_iff split: option.splits)

lemma reconcile_example_2:
  "reconcile (str_other example_env)
     (case appointment_data example_state ''CA1'' of None \<Rightarrow> Map.empty | Some a \<Rightarrow> a)
     ''+15550100'' ''Hospital ID 2'' (example_extracted 2)
   = Inr (example_draft(''hospital_id'' \<mapsto> PInt 2, ''latitude'' \<mapsto> PFloat 0,
            ''longitude'' \<mapsto> PFloat 0, ''alert'' \<mapsto> PList []))"
  by (simp add: example_defs string_defs re_defs extractor_defs unset_def)

lemma example_draft_complete:
  assumes "i \<noteq> 0"
  shows "\<forall>f \<in> set required_fields.
     \<exists>v. (example_draft(''hospital_id'' \<mapsto> PInt i, ''latitude'' \<mapsto> PFloat 0,
            ''longitude'' \<mapsto> PFloat 0, ''alert'' \<mapsto> PList [])) f = Some v \<and> truthy v"
  using assms by (simp add: required_fields_def example_draft_def)

text \<open>
  C5, as the code has it. When the date parses and the COUNT statement does not raise,
  the slot-availability check is true exactly when the appointment table holds fewer than
  3 rows with that hospital id, date and time. With 3 such rows it is false, and for a
  complete draft whose hospital exists the handler then stores the draft without its
  \<open>time\<close> and asks for a different time.
\<close>

theorem slot_threshold:
  assumes "parse_date env s = Some d" and "\<not> raises db (CountAppointments hid d t)"
  shows "check_appointment_availability env db hid (PStr s) t = (slot_count db hid d t < 3)
    \<and> (reconcile (str_other env)
           (case appointment_data st sid of None \<Rightarrow> Map.empty | Some a \<Rightarrow> a)
           rcpt speech extracted = Inr ad
         \<and> (\<forall>f \<in> set required_fields. \<exists>v. ad f = Some v \<and> truthy v)
         \<and> ad ''hospital_id'' = Some h \<and> py_int h = Inr hid
         \<and> fst (check_hospital_exists db hid)
         \<and> ad ''date'' = Some (PStr s) \<and> ad ''time'' = Some t
         \<and> slot_count db hid d t = 3
         \<and> conversation env db st sid speech rcpt extracted llm_text = (st', reply)
        \<longrightarrow> check_appointment_availability env db hid (PStr s) t = False
          \<and> appointment_data st' sid = Some (ad(''time'' := None))
          \<and> confirmation_state st' = confirmation_state st
          \<and> reply = Response (''I'm sorry, but the time slot at '' @ py_str (str_other env) t
               @ '' on '' @ s @ '' is fully booked. Please suggest a different time.'')
               None True)"
proof -
  have a: "check_appointment_availability env db hid (PStr s) t = (slot_count db hid d t < 3)"
    using assms by (simp add: check_appointment_availability_def)
  show ?thesis
  proof (intro conjI impI)
    show "check_appointment_availability env db hid (PStr s) t = (slot_count db hid d t < 3)"
      by (rule a)
  next
    assume b: "reconcile (str_other env)
           (case appointment_data st sid of None \<Rightarrow> Map.empty | Some a \<Rightarrow> a)
           rcpt speech extracted = Inr ad
         \<and> (\<forall>f \<in> set required_fields. \<exists>v. ad f = Some v \<and> truthy v)
         \<and> ad ''hospital_id'' = Some h \<and> py_int h = Inr hid
         \<and> fst (check_hospital_exists db hid)
         \<and> ad ''date'' = Some (PStr s) \<and> ad ''time'' = Some t
         \<and> slot_count db hid d t = 3
         \<and> conversation env db st sid speech rcpt extracted llm_text = (st', reply)"
    then have n: "\<not> check_appointment_availability env db hid (PStr s) t"
      using a by simp
    from b n unavailable_slot [of env st sid rcpt speech extracted ad h hid db "PStr s" t llm_text st' reply]
    have r: "appointment_data st' sid = Some (ad(''time'' := None))
      \<and> confirmation_state st' = confirmation_state st
      \<and> reply = Response (''I'm sorry, but the time slot at '' @ py_str (str_other env) t
          @ '' on '' @ py_str (str_other env) (PStr s)
          @ '' is fully booked. Please suggest a different time.'') None True"
      by blast
    from n show "check_appointment_availability env db hid (PStr s) t = False" by simp
    from r show "appointment_data st' sid = Some (ad(''time'' := None))" by blast
    from r show "confirmation_state st' = confirmation_state st" by blast
    from r show "reply = Response (''I'm sorry, but the time slot at '' @ py_str (str_other env) t
               @ '' on '' @ s @ '' is fully booked. Please suggest a different time.'')
               None True" by simp
  qed
qed

theorem slot_threshold_witness:
  "check_appointment_availability example_env example_store 2 (PStr ''2023-06-15'') (PStr ''10:00 am'')
     = False
   \<and> check_appointment_availability example_env example_store 2 (PStr ''2023-06-15'') (PStr ''11:00 am'')
     = True
   \<and> appointment_data
       (fst (conversation example_env example_store example_state ''CA1'' ''Hospital ID 2''
               ''+15550100'' (example_extracted 2) None)) ''CA1''
     = Some ((example_draft(''hospital_id'' \<mapsto> PInt 2, ''latitude'' \<mapsto> PFloat 0,
                ''longitude'' \<mapsto> PFloat 0, ''alert'' \<mapsto> PList []))(''time'' := None))
   \<and> snd (conversation example_env example_store example_state ''CA1'' ''Hospital ID 2''
             ''+15550100'' (example_extracted 2) None)
     = Response ''I'm sorry, but the time slot at 10:00 am on 2023-06-15 is fully booked. Please suggest a different time.''
         None True"
proof -
  let ?ad = "example_draft(''hospital_id'' \<mapsto> PInt 2, ''latitude'' \<mapsto> PFloat 0,
               ''longitude'' \<mapsto> PFloat 0, ''alert'' \<mapsto> PList [])"
  let ?c = "conversation example_env example_store example_state ''CA1'' ''Hospital ID 2''
              ''+15550100'' (example_extracted 2) None"
  have p: "parse_date example_env ''2023-06-15'' = Some ''2023-06-15''"
    by (simp add: example_env_def)
  have q: "\<not> raises example_store (CountAppointments 2 ''2023-06-15'' t)" for t
    by (simp add: example_store_def)
  have n3: "slot_count example_store 2 ''2023-06-15'' (PStr ''10:00 am'') = 3"
    by (simp add: slot_count_def example_store_def full_slot_def)
  have n0: "slot_count example_store 2 ''2023-06-15'' (PStr ''11:00 am'') = 0"
    by (simp add: slot_count_def example_store_def full_slot_def)
  have full: "\<forall>f \<in> set required_fields. \<exists>v. ?ad f = Some v \<and> truthy v"
    by (rule example_draft_complete) simp
  have h: "?ad ''hospital_id'' = Some (PInt 2)" by simp
  have i: "py_int (PInt 2) = Inr 2" by simp
  have e: "fst (check_hospital_exists example_store 2)"
    by (simp add: check_hospital_exists_def example_store_def)
  have d: "?ad ''date'' = Some (PStr ''2023-06-15'')" by (simp add: example_draft_def)
  have t: "?ad ''time'' = Some (PStr ''10:00 am'')" by (simp add: example_draft_def)
  have c: "?c = (fst ?c, snd ?c)" by simp
  note r = slot_threshold [OF p q, where t = "PStr ''10:00 am''" and st = example_state
      and sid = "''CA1''" and rcpt = "''+15550100''" and speech = "''Hospital ID 2''"
      and extracted = "example_extracted 2" and ad = ?ad and h = "PInt 2"
      and llm_text = None and st' = "fst ?c" and reply = "snd ?c"]
  from r n3 have f1: "check_appointment_availability example_env example_store 2
      (PStr ''2023-06-15'') (PStr ''10:00 am'') = False"
    by simp
  from slot_threshold [OF p q, where t = "PStr ''11:00 am''"] n0
  have f2: "check_appointment_availability example_env example_store 2
      (PStr ''2023-06-15'') (PStr ''11:00 am'') = True"
    by simp
  from r reconcile_example_2 full h i e d t n3 c
  have f: "appointment_data (fst ?c) ''CA1'' = Some (?ad(''time'' := None))
      \<and> snd ?c = Response (''I'm sorry, but the time slot at ''
          @ py_str (str_other example_env) (PStr ''10:00 am'')
          @ '' on '' @ ''2023-06-15'' @ '' is fully booked. Please suggest a different time.'')
          None True"
    by blast
  from f have f3: "appointment_data (fst ?c) ''CA1'' = Some (?ad(''time'' := None))"
    by (rule conjunct1)
  from f have f4: "snd ?c = Response ''I'm sorry, but the time slot at 10:00 am on 2023-06-15 is fully booked. Please suggest a different time.''
         None True"
    by simp
  from f1 f2 f3 f4 show ?thesis by (intro conjI)
qed

text \<open>
  C5 as stated fails when the COUNT statement raises: a store whose appointment table
  has no row for the slot still reports it unavailable.
\<close>

theorem slot_threshold_counterexample:
  "slot_count failing_store 1 ''2023-06-15'' (PStr ''10:00 am'') = 0
   \<and> parse_date example_env ''2023-06-15'' = Some ''2023-06-15''
   \<and> check_appointment_availability example_env failing_store 1 (PStr ''2023-06-15'')
        (PStr ''10:00 am'') = False"
  by (simp add: slot_count_def check_appointment_availability_def example_defs)

text \<open>
  C9. When the COUNT statement of the slot-availability check raises, the check is false;
  for a complete draft whose hospital exists the handler then stores the draft without
  its \<open>time\<close>, does not set the confirmation flag, and asks for a different time.
\<close>

theorem store_failure_unavailable:
  assumes "reconcile (str_other env)
             (case appointment_data st sid of None \<Rightarrow> Map.empty | Some a \<Rightarrow> a)
             rcpt speech extracted = Inr ad"
    and "\<forall>f \<in> set required_fields. \<exists>v. ad f = Some v \<and> truthy v"
    and "ad ''hospital_id'' = Some h" and "py_int h = Inr hid"
    and "fst (check_hospital_exists db hid)"
    and "ad ''date'' = Some (PStr s)" and "ad ''time'' = Some t"
    and "parse_date env s = Some d" and "raises db (CountAppointments hid d t)"
    and "conversation env db st sid speech rcpt extracted llm_text = (st', reply)"
  shows "check_appointment_availability env db hid (PStr s) t = False
    \<and> appointment_data st' sid = Some (ad(''time'' := None))
    \<and> confirmation_state st' = confirmation_state st
    \<and> reply = Response (''I'm sorry, but the time slot at '' @ py_str (str_other env) t
         @ '' on '' @ s @ '' is fully booked. Please suggest a different time.'') None True"
proof -
  have n: "\<not> check_appointment_availability env db hid (PStr s) t"
    using assms(8,9) by (simp add: check_appointment_availability_def)
  from unavailable_slot [OF assms(1,2,3,4,5,6,7) n assms(10)] n
  show ?thesis by simp
qed

theorem store_failure_unavailable_witness:
  "check_appointment_availability example_env failing_store 1 (PStr ''2023-06-15'')
     (PStr ''10:00 am'') = False
   \<and> appointment_data
       (fst (conversation example_env failing_store example_state ''CA1'' ''Hospital ID 1''
               ''+15550100'' (example_extracted 1) None)) ''CA1''
     = Some ((example_draft(''hospital_id'' \<mapsto> PInt 1, ''latitude'' \<mapsto> PFloat 0,
                ''longitude'' \<mapsto> PFloat 0, ''alert'' \<mapsto> PList []))(''time'' := None))
   \<and> confirmation_state
       (fst (conversation example_env failing_store example_state ''CA1'' ''Hospital ID 1''
               ''+15550100'' (example_extracted 1) None)) = Map.empty
   \<and> snd (conversation example_env failing_store example_state ''CA1'' ''Hospital ID 1''
             ''+15550100'' (example_extracted 1) None)
     = Response ''I'm sorry, but the time slot at 10:00 am on 2023-06-15 is fully booked. Please suggest a different time.''
         None True"
proof -
  let ?ad = "example_draft(''hospital_id'' \<mapsto> PInt 1, ''latitude'' \<mapsto> PFloat 0,
               ''longitude'' \<mapsto> PFloat 0, ''alert'' \<mapsto> PList [])"
  let ?c = "conversation example_env failing_store example_state ''CA1'' ''Hospital ID 1''
              ''+15550100'' (example_extracted 1) None"
  have rc: "reconcile (str_other example_env)
     (case appointment_data example_state ''CA1'' of None \<Rightarrow> Map.empty | Some a \<Rightarrow> a)
     ''+15550100'' ''Hospital ID 1'' (example_extracted 1) = Inr ?ad"
    by (simp add: example_defs string_defs re_defs extractor_defs unset_def)
  have p: "parse_date example_env ''2023-06-15'' = Some ''2023-06-15''"
    by (simp add: example_env_def)
  have q: "raises failing_store (CountAppointments 1 ''2023-06-15'' (PStr ''10:00 am''))"
    by (simp add: failing_store_def)
  have full: "\<forall>f \<in> set required_fields. \<exists>v. ?ad f = Some v \<and> truthy v"
    by (rule example_draft_complete) simp
  have h: "?ad ''hospital_id'' = Some (PInt 1)" by simp
  have i: "py_int (PInt 1) = Inr 1" by simp
  have e: "fst (check_hospital_exists failing_store 1)"
    by (simp add: check_hospital_exists_def failing_store_def example_store_def)
  have d: "?ad ''date'' = Some (PStr ''2023-06-15'')" by (simp add: example_draft_def)
  have t: "?ad ''time'' = Some (PStr ''10:00 am'')" by (simp add: example_draft_def)
  have c: "?c = (fst ?c, snd ?c)" by simp
  have s: "confirmation_state example_state = Map.empty" by (simp add: example_state_def)
  note r = store_failure_unavailable [OF rc full h i e d t p q c]
  from r have f1: "check_appointment_availability example_env failing_store 1
      (PStr ''2023-06-15'') (PStr ''10:00 am'') = False"
    by (rule conjunct1)
  from r have f2: "appointment_data (fst ?c) ''CA1'' = Some (?ad(''time'' := None))"
    by blast
  from r have f3: "confirmation_state (fst ?c) = Map.empty"
    unfolding s by blast
  from r have f4: "snd ?c = Response ''I'm sorry, but the time slot at 10:00 am on 2023-06-15 is fully booked. Please suggest a different time.''
         None True"
    by simp
  from f1 f2 f3 f4 show ?thesis by (intro conjI)
qed

subsection \<open>The name templates\<close>

lemma capture_name_first:
  assumes "\<forall>q \<in> set ps. case search q sl of None \<Rightarrow> True | Some g' \<Rightarrow> clean_words g' = []"
    and "search p sl = Some g" and "clean_words g \<noteq> []"
  shows "capture_name (ps @ p # qs) sl = Some (title (join '' '' (clean_words g)))"
  using assms by (induction ps) (auto split: option.splits)

text \<open>
  C6, as the code has it. When a name template matches the lower-cased transcript with a
  capture that keeps at least one word once the stop words are removed, and every
  template before it either does not match or keeps no word, the patient name is that
  capture's remaining words, none of them a stop word, joined by single spaces and
  title-cased. A template whose capture keeps no word is passed over.
\<close>

theorem name_from_template:
  assumes "name_patterns = ps @ p # qs"
    and "\<forall>q \<in> set ps. case search q (lower speech) of None \<Rightarrow> True
                        | Some g' \<Rightarrow> clean_words g' = []"
    and "search p (lower speech) = Some g" and "clean_words g \<noteq> []"
  shows "extract_name ad speech ''patient'' = Some (PStr (title (join '' '' (clean_words g))))
    \<and> set (clean_words g) \<inter> set stop_words = {}
    \<and> set (clean_words g) \<subseteq> set (py_split (py_strip g))"
proof -
  have "capture_name name_patterns (lower speech) = Some (title (join '' '' (clean_words g)))"
    unfolding assms(1) using assms(2,3,4) by (rule capture_name_first)
  then have "extract_name ad speech ''patient'' = Some (PStr (title (join '' '' (clean_words g))))"
    by (simp add: extract_name_def)
  moreover have "set (clean_words g) \<inter> set stop_words = {}"
    by (auto simp: clean_words_def)
  moreover have "set (clean_words g) \<subseteq> set (py_split (py_strip g))"
    by (auto simp: clean_words_def)
  ultimately show ?thesis by blast
qed

theorem name_from_template_witness:
  "search (name_patterns ! 0) (lower ''My name is John calling'') = Some ''john calling''
   \<and> clean_words ''john calling'' = [''john'']
   \<and> extract_name Map.empty ''My name is John calling'' ''patient'' = Some (PStr ''John'')"
proof -
  have s: "search (name_patterns ! 0) (lower ''My name is John calling'') = Some ''john calling''"
    by (simp add: string_defs re_defs extractor_defs)
  have c: "clean_words ''john calling'' = [''john'']"
    by (simp add: string_defs extractor_defs)
  have n: "name_patterns = [] @ (name_patterns ! 0) # [name_patterns ! 1, name_patterns ! 2]"
    by (simp add: name_patterns_def)
  have e: "\<forall>q \<in> set []. case search q (lower ''My name is John calling'') of None \<Rightarrow> True
                        | Some g' \<Rightarrow> clean_words g' = []"
    by simp
  have ne: "clean_words ''john calling'' \<noteq> []" by (simp add: c)
  from name_from_template [OF n e s ne, of Map.empty]
  have "extract_name Map.empty ''My name is John calling'' ''patient''
      = Some (PStr (title (join '' '' (clean_words ''john calling''))))"
    by (rule conjunct1)
  then have "extract_name Map.empty ''My name is John calling'' ''patient'' = Some (PStr ''John'')"
    unfolding c by (simp add: string_defs)
  with s c show ?thesis by (intro conjI)
qed

text \<open>
  C6 as stated fails for a transcript whose capture consists of stop words: the second
  template matches \<open>here is my name\<close> and captures \<open>here\<close>, which is a stop word,
  so no template gives a name, and the short-utterance rule makes the whole transcript the
  name.
\<close>

theorem name_template_counterexample:
  "search (name_patterns ! 1) (lower ''here is my name'') = Some ''here''
   \<and> title (join '' '' (clean_words ''here'')) = ''''
   \<and> extract_name Map.empty ''here is my name'' ''patient'' = Some (PStr ''Here Is My Name'')"
  by (simp add: string_defs re_defs extractor_defs)

subsection \<open>Reconciliation\<close>

lemma extract_name_other: "key \<noteq> ''patient'' \<Longrightarrow> extract_name ad speech key = ad key"
  by (simp add: extract_name_def Let_def split: option.splits)

lemma set_str_apply:
  "set_str ad k c key = (if key = k then (case c of None \<Rightarrow> ad k | Some s \<Rightarrow> Some (PStr s))
                          else ad key)"
  by (simp add: set_str_def split: option.splits)

lemma capture_fields_hospital:
  "capture_fields ad rcpt speech ''hospital_id'' =
     (case capture_hospital hospital_patterns (lower speech) of
        None \<Rightarrow> ad ''hospital_id'' | Some i \<Rightarrow> Some (PInt i))"
  by (simp add: capture_fields_def Let_def set_str_apply extract_name_other split: option.splits)

lemma capture_fields_date:
  "capture_fields ad rcpt speech ''date'' =
     (case first_match date_patterns (lower speech) of
        None \<Rightarrow> ad ''date'' | Some g \<Rightarrow> Some (PStr g))"
  by (simp add: capture_fields_def Let_def set_str_apply extract_name_other split: option.splits)

lemma capture_fields_time:
  "capture_fields ad rcpt speech ''time'' =
     (case first_match time_patterns (lower speech) of
        None \<Rightarrow> ad ''time'' | Some g \<Rightarrow> Some (PStr g))"
  by (simp add: capture_fields_def Let_def set_str_apply extract_name_other split: option.splits)

lemma capture_fields_symptoms:
  "capture_fields ad rcpt speech ''symptoms'' = ad ''symptoms''"
  by (simp add: capture_fields_def Let_def set_str_apply extract_name_other split: option.splits)

lemma direct_capture_apply:
  assumes "direct_capture other ad rcpt speech = Inr ad1"
  shows "\<exists>c. capture_symptoms other (capture_fields ad rcpt speech) (lower speech) = Inr c
    \<and> ad1 = set_str (capture_fields ad rcpt speech) ''symptoms'' c"
  using assms by (auto simp: direct_capture_def Let_def split: sum.splits)

text \<open>
  C1, as the code has it. For a field among symptoms, date, time and hospital_id that
  holds a true value in the draft: if none of the field's templates matches the turn's
  transcript, the reconciliation of the turn (when it does not raise) leaves the field as
  it is, whatever the model-assisted result proposes. For symptoms this is stated for the
  turns in which the left-over-text rule of lines 245-273 yields no text; what that rule
  does to symptoms already stored is not part of the statement.
\<close>

theorem reconcile_keeps_field:
  assumes "ad key = Some v" and "truthy v"
    and "reconcile other ad rcpt speech extracted = Inr ad'"
  shows "(key = ''date'' \<and> first_match date_patterns (lower speech) = None \<longrightarrow> ad' key = Some v)
    \<and> (key = ''time'' \<and> first_match time_patterns (lower speech) = None \<longrightarrow> ad' key = Some v)
    \<and> (key = ''hospital_id'' \<and> capture_hospital hospital_patterns (lower speech) = None
          \<longrightarrow> ad' key = Some v)
    \<and> (key = ''symptoms'' \<and> explicit_symptoms (lower speech) = None
         \<and> residual_symptoms other (capture_fields ad rcpt speech) (lower speech) = Inr None
          \<longrightarrow> ad' key = Some v)"
proof -
  from assms(3) obtain ad1 where d: "direct_capture other ad rcpt speech = Inr ad1"
    and m: "merge_llm ad1 extracted = Inr ad'"
    by (auto simp: reconcile_def split: sum.splits)
  from direct_capture_apply [OF d] obtain c where
    c: "capture_symptoms other (capture_fields ad rcpt speech) (lower speech) = Inr c"
    and a1: "ad1 = set_str (capture_fields ad rcpt speech) ''symptoms'' c"
    by blast
  have keep: "ad1 key = Some v \<Longrightarrow> key \<noteq> ''patient'' \<Longrightarrow> ad' key = Some v"
    using merge_llm_keeps [OF _ _ assms(2) m] by blast
  show ?thesis
  proof (intro conjI impI)
    assume "key = ''date'' \<and> first_match date_patterns (lower speech) = None"
    then show "ad' key = Some v"
      using assms(1) by (intro keep) (simp_all add: a1 set_str_apply capture_fields_date)
  next
    assume "key = ''time'' \<and> first_match time_patterns (lower speech) = None"
    then show "ad' key = Some v"
      using assms(1) by (intro keep) (simp_all add: a1 set_str_apply capture_fields_time)
  next
    assume "key = ''hospital_id'' \<and> capture_hospital hospital_patterns (lower speech) = None"
    then show "ad' key = Some v"
      using assms(1) by (intro keep) (simp_all add: a1 set_str_apply capture_fields_hospital)
  next
    assume h: "key = ''symptoms'' \<and> explicit_symptoms (lower speech) = None
         \<and> residual_symptoms other (capture_fields ad rcpt speech) (lower speech) = Inr None"
    then have "c = None" using c by (simp add: capture_symptoms_def)
    with h show "ad' key = Some v"
      using assms(1) by (intro keep) (simp_all add: a1 set_str_apply capture_fields_symptoms)
  qed
qed

theorem reconcile_keeps_field_witness:
  "first_match date_patterns (lower ''Okay'') = None
   \<and> first_match time_patterns (lower ''Okay'') = None
   \<and> capture_hospital hospital_patterns (lower ''Okay'') = None
   \<and> explicit_symptoms (lower ''Okay'') = None
   \<and> residual_symptoms (\<lambda>v. ''?'')
        (capture_fields (example_draft(''hospital_id'' \<mapsto> PInt 2)) ''+15550100'' ''Okay'')
        (lower ''Okay'') = Inr None
   \<and> (case reconcile (\<lambda>v. ''?'') (example_draft(''hospital_id'' \<mapsto> PInt 2)) ''+15550100''
              ''Okay''
              [(''symptoms'', PStr ''fever''), (''date'', PStr ''2024-01-01''),
               (''time'', PStr ''9:00 AM''), (''hospital_id'', PInt 5)] of
         Inl e \<Rightarrow> False
       | Inr ad' \<Rightarrow> ad' ''symptoms'' = Some (PStr ''headache'')
                   \<and> ad' ''date'' = Some (PStr ''2023-06-15'')
                   \<and> ad' ''time'' = Some (PStr ''10:00 am'')
                   \<and> ad' ''hospital_id'' = Some (PInt 2))"
proof -
  let ?ad = "example_draft(''hospital_id'' \<mapsto> PInt 2)"
  let ?x = "[(''symptoms'', PStr ''fever''), (''date'', PStr ''2024-01-01''),
             (''time'', PStr ''9:00 AM''), (''hospital_id'', PInt 5)]"
  obtain ad' where r: "reconcile (\<lambda>v. ''?'') ?ad ''+15550100'' ''Okay'' ?x = Inr ad'"
    by (simp add: example_defs string_defs re_defs extractor_defs unset_def)
  have d: "first_match date_patterns (lower ''Okay'') = None"
    and t: "first_match time_patterns (lower ''Okay'') = None"
    and h: "capture_hospital hospital_patterns (lower ''Okay'') = None"
    and e: "explicit_symptoms (lower ''Okay'') = None"
    by (simp_all add: string_defs re_defs extractor_defs)
  have l: "residual_symptoms (\<lambda>v. ''?'') (capture_fields ?ad ''+15550100'' ''Okay'')
      (lower ''Okay'') = Inr None"
    by (simp add: example_defs string_defs re_defs extractor_defs)
  have vs: "?ad ''symptoms'' = Some (PStr ''headache'')" "truthy (PStr ''headache'')"
    and vd: "?ad ''date'' = Some (PStr ''2023-06-15'')" "truthy (PStr ''2023-06-15'')"
    and vt: "?ad ''time'' = Some (PStr ''10:00 am'')" "truthy (PStr ''10:00 am'')"
    and vh: "?ad ''hospital_id'' = Some (PInt 2)" "truthy (PInt 2)"
    by (simp_all add: example_draft_def)
  from reconcile_keeps_field [OF vs r] e l
  have 1: "ad' ''symptoms'' = Some (PStr ''headache'')" by blast
  from reconcile_keeps_field [OF vd r] d
  have 2: "ad' ''date'' = Some (PStr ''2023-06-15'')" by blast
  from reconcile_keeps_field [OF vt r] t
  have 3: "ad' ''time'' = Some (PStr ''10:00 am'')" by blast
  from reconcile_keeps_field [OF vh r] h
  have 4: "ad' ''hospital_id'' = Some (PInt 2)" by blast
  from 1 2 3 4 have "case reconcile (\<lambda>v. ''?'') ?ad ''+15550100'' ''Okay'' ?x of
         Inl e \<Rightarrow> False
       | Inr ad' \<Rightarrow> ad' ''symptoms'' = Some (PStr ''headache'')
                   \<and> ad' ''date'' = Some (PStr ''2023-06-15'')
                   \<and> ad' ''time'' = Some (PStr ''10:00 am'')
                   \<and> ad' ''hospital_id'' = Some (PInt 2)"
    unfolding r by simp
  with d t h e l show ?thesis by (intro conjI)
qed

text \<open>
  C1 as stated fails for a field one of whose templates matches: the draft holds the date
  2023-06-15, the transcript names another date, and the draft's date is replaced.
\<close>

theorem reconcile_overwrites_counterexample:
  "example_draft ''date'' = Some (PStr ''2023-06-15'')
   \<and> truthy (PStr ''2023-06-15'')
   \<and> reconcile (\<lambda>v. ''?'') example_draft ''+15550100'' ''The date is 2024-01-01'' []
       = Inr (example_draft(''date'' \<mapsto> PStr ''2024-01-01''))
   \<and> (example_draft(''date'' \<mapsto> PStr ''2024-01-01'')) ''date'' \<noteq> Some (PStr ''2023-06-15'')"
  by (simp add: example_defs string_defs re_defs extractor_defs unset_def)

text \<open>
  The left-over-text rule lies outside the statement above. Its guard (line 247) asks
  only whether a symptom template matched in this turn, while the comment before it
  (line 245) speaks of a draft with name, hospital, date and time but no symptoms. On a
  complete draft, a transcript that changes the time therefore also replaces the
  symptoms the draft holds by the rest of the transcript.
\<close>

lemma leftover_text_replaces_symptoms:
  "explicit_symptoms (lower ''Change the time to 11 am'') = None
   \<and> (case reconcile (\<lambda>v. ''?'') (example_draft(''hospital_id'' \<mapsto> PInt 2)) ''+15550100''
              ''Change the time to 11 am'' [] of
         Inl e \<Rightarrow> False
       | Inr ad' \<Rightarrow> ad' ''time'' = Some (PStr ''11 am'')
                   \<and> ad' ''symptoms'' = Some (PStr ''Change the time to''))"
  by (simp add: example_defs string_defs re_defs extractor_defs unset_def)

subsection \<open>Confirmation\<close>

lemma fix_phone_nonempty: "fix_phone a rcpt caller \<noteq> Map.empty"
proof
  assume e: "fix_phone a rcpt caller = Map.empty"
  have "fix_phone a rcpt caller ''phone'' \<noteq> None"
    by (auto simp: fix_phone_def split: option.splits)
  with e show False by simp
qed

lemma book_failed:
  assumes "fst (create_appointment env db ad) = None \<or> fst (create_appointment env db ad) = Some 0"
  shows "book env db st sid ad = (st, snd (create_appointment env db ad), problem_reply, None)"
  using assms by (cases "create_appointment env db ad") (auto simp: book_def split: option.splits)

lemma book_cleared:
  assumes "book env db st sid ad = (st', db', reply, sms)"
    and "appointment_data st sid \<noteq> None" and "appointment_data st' sid = None"
  shows "\<exists>i. fst (create_appointment env db ad) = Some i \<and> i \<noteq> 0"
  using assms
  by (cases "create_appointment env db ad")
     (auto simp: book_def clear_session_def split: option.splits if_splits sum.splits)

text \<open>
  C10. When the answer is classified as \<open>confirm\<close> and \<open>create_appointment\<close>
  returns no id (the INSERT raised, the date did not parse, a key was missing) or a false
  one, the session is left exactly as it was: the draft and the confirmation flag stay.
  A stored draft is removed from the session only by a booking that returned an id, or by
  an answer classified as \<open>cancel\<close>.
\<close>

theorem failed_booking_keeps_session:
  assumes "confirm_appointment env db st sid rcpt caller analysis = (st', db', reply, sms)"
    and "ad = fix_phone (case appointment_data st sid of None \<Rightarrow> Map.empty | Some a \<Rightarrow> a)
                rcpt caller"
  shows "(analysis = PDict items \<and> map_of items ''response_type'' = Some (PStr ''confirm'')
          \<and> (fst (create_appointment env db ad) = None
               \<or> fst (create_appointment env db ad) = Some 0)
         \<longrightarrow> st' = st \<and> reply = problem_reply \<and> sms = None)
    \<and> (appointment_data st sid \<noteq> None \<and> appointment_data st' sid = None
         \<longrightarrow> (\<exists>its. analysis = PDict its
               \<and> ((map_of its ''response_type'' = Some (PStr ''confirm'')
                     \<and> (\<exists>i. fst (create_appointment env db ad) = Some i \<and> i \<noteq> 0))
                   \<or> map_of its ''response_type'' = Some (PStr ''cancel''))))"
proof (rule conjI; rule impI)
  assume a: "analysis = PDict items \<and> map_of items ''response_type'' = Some (PStr ''confirm'')
          \<and> (fst (create_appointment env db ad) = None
               \<or> fst (create_appointment env db ad) = Some 0)"
  then have "confirm_appointment env db st sid rcpt caller analysis = book env db st sid ad"
    using assms(2) fix_phone_nonempty
    by (simp add: confirm_appointment_def Let_def get_default_def)
  with a assms(1) book_failed [of env db ad st sid]
  show "st' = st \<and> reply = problem_reply \<and> sms = None" by auto
next
  assume c: "appointment_data st sid \<noteq> None \<and> appointment_data st' sid = None"
  then obtain a where sa: "appointment_data st sid = Some a" by auto
  have ne: "ad \<noteq> Map.empty" using assms(2) fix_phone_nonempty by simp
  show "\<exists>its. analysis = PDict its
               \<and> ((map_of its ''response_type'' = Some (PStr ''confirm'')
                     \<and> (\<exists>i. fst (create_appointment env db ad) = Some i \<and> i \<noteq> 0))
                   \<or> map_of its ''response_type'' = Some (PStr ''cancel''))"
  proof (cases analysis)
    case (PDict its)
    let ?rt = "get_default (map_of its) ''response_type'' PNone"
    have rt: "?rt = PStr x \<longleftrightarrow> map_of its ''response_type'' = Some (PStr x)" for x
      by (auto simp: get_default_def split: option.splits)
    show ?thesis
    proof (cases "?rt = PStr ''confirm''")
      case True
      then have "book env db st sid ad = (st', db', reply, sms)"
        using assms PDict ne by (simp add: confirm_appointment_def Let_def)
      from book_cleared [OF this] c True PDict show ?thesis by (auto simp: rt)
    next
      case False
      then show ?thesis
        using assms PDict ne c sa
        by (auto simp: confirm_appointment_def Let_def set_draft_def clear_session_def rt
                 split: if_splits)
    qed
  qed (use assms c ne in \<open>auto simp: confirm_appointment_def Let_def\<close>)
qed

theorem failed_booking_keeps_session_witness:
  "fst (confirm_appointment example_env failing_store confirming_state ''CA1'' ''+15550100''
          ''+15550199'' (PDict [(''response_type'', PStr ''confirm'')])) = confirming_state
   \<and> fst (snd (snd (confirm_appointment example_env failing_store confirming_state ''CA1''
          ''+15550100'' ''+15550199'' (PDict [(''response_type'', PStr ''confirm'')]))))
       = problem_reply
   \<and> appointment_data confirming_state ''CA1'' \<noteq> None
   \<and> appointment_data
       (fst (confirm_appointment example_env example_store confirming_state ''CA1'' ''+15550100''
          ''+15550199'' (PDict [(''response_type'', PStr ''confirm'')]))) ''CA1'' = None
   \<and> fst (create_appointment example_env example_store
        (example_draft(''hospital_id'' \<mapsto> PInt 1,
           ''hospital_name'' \<mapsto> PStr ''Medicare General Hospital''))) = Some 4"
proof -
  let ?an = "PDict [(''response_type'', PStr ''confirm'')]"
  let ?ad = "example_draft(''hospital_id'' \<mapsto> PInt 1,
               ''hospital_name'' \<mapsto> PStr ''Medicare General Hospital'')"
  let ?c = "confirm_appointment example_env failing_store confirming_state ''CA1'' ''+15550100''
              ''+15550199'' ?an"
  let ?d = "confirm_appointment example_env example_store confirming_state ''CA1'' ''+15550100''
              ''+15550199'' ?an"
  have fp: "fix_phone (case appointment_data confirming_state ''CA1'' of
                         None \<Rightarrow> Map.empty | Some a \<Rightarrow> a) ''+15550100'' ''+15550199'' = ?ad"
    by (simp add: confirming_state_def fix_phone_def example_draft_def)
  note ad = fp [symmetric]
  have c: "?c = (fst ?c, fst (snd ?c), fst (snd (snd ?c)), snd (snd (snd ?c)))" by simp
  have d: "?d = (fst ?d, fst (snd ?d), fst (snd (snd ?d)), snd (snd (snd ?d)))" by simp
  have f: "fst (create_appointment example_env failing_store ?ad) = None"
    by (simp add: create_appointment_def example_defs)
  have g: "fst (create_appointment example_env example_store ?ad) = Some 4"
    by (simp add: create_appointment_def example_defs)
  have rt: "map_of [(''response_type'', PStr ''confirm'')] ''response_type'' = Some (PStr ''confirm'')"
    by simp
  from failed_booking_keeps_session [OF c ad, where items = "[(''response_type'', PStr ''confirm'')]"]
    f rt
  have 1: "fst ?c = confirming_state \<and> fst (snd (snd ?c)) = problem_reply" by blast
  have s: "appointment_data confirming_state ''CA1'' \<noteq> None" by (simp add: confirming_state_def)
  have ne: "?ad \<noteq> Map.empty" by simp
  have b: "fst (book example_env example_store confirming_state ''CA1'' ?ad)
      = clear_session confirming_state ''CA1''"
    using g by (cases "create_appointment example_env example_store ?ad")
      (simp add: book_def get_default_def)
  have "?d = book example_env example_store confirming_state ''CA1'' ?ad"
    unfolding confirm_appointment_def Let_def fp using ne by (simp add: get_default_def)
  with b have cl: "appointment_data (fst ?d) ''CA1'' = None"
    by (simp add: clear_session_def)
  from failed_booking_keeps_session [OF d ad] s cl
  have "\<exists>i. fst (create_appointment example_env example_store ?ad) = Some i \<and> i \<noteq> 0"
    by auto
  with g have 2: "fst (create_appointment example_env example_store ?ad) = Some 4" by simp
  from 1 s cl 2 show ?thesis by blast
qed

text \<open>
  C8. For every call id, delivering a terminal call-status signal twice is idempotent: the
  first delivery removes the call's conversation history, draft and confirmation flag and
  answers 200; the second delivery (with the same or another terminal status) leaves the
  state as the first one left it and answers 200 as well.
\<close>

theorem call_status_twice:
  assumes "s1 \<in> set terminal_statuses" and "s2 \<in> set terminal_statuses"
    and "call_status st sid (Some s1) = (st1, r1)"
    and "call_status st1 sid (Some s2) = (st2, r2)"
  shows "conversation_history st1 sid = None \<and> appointment_data st1 sid = None
    \<and> confirmation_state st1 sid = None \<and> r1 = ('''', 200)
    \<and> st2 = st1 \<and> r2 = ('''', 200)"
  using assms by (auto simp: call_status_def)

theorem call_status_twice_witness:
  "call_status
     \<lparr>conversation_history = [''CA1'' \<mapsto> [(''user'', ''hello'')]],
      appointment_data = [''CA1'' \<mapsto> [''patient'' \<mapsto> PStr ''John'']],
      confirmation_state = [''CA1'' \<mapsto> True]\<rparr> ''CA1'' (Some ''completed'')
   = (\<lparr>conversation_history = Map.empty, appointment_data = Map.empty,
       confirmation_state = Map.empty\<rparr>, '''', 200)
   \<and> call_status
       \<lparr>conversation_history = Map.empty, appointment_data = Map.empty,
        confirmation_state = Map.empty\<rparr> ''CA1'' (Some ''busy'')
   = (\<lparr>conversation_history = Map.empty, appointment_data = Map.empty,
       confirmation_state = Map.empty\<rparr>, '''', 200)"
proof -
  let ?st = "\<lparr>conversation_history = [''CA1'' \<mapsto> [(''user'', ''hello'')]],
      appointment_data = [''CA1'' \<mapsto> [''patient'' \<mapsto> PStr ''John'']],
      confirmation_state = [''CA1'' \<mapsto> True]\<rparr>"
  let ?e = "\<lparr>conversation_history = Map.empty, appointment_data = Map.empty,
       confirmation_state = (Map.empty :: string \<rightharpoonup> bool)\<rparr>"
  have a: "''completed'' \<in> set terminal_statuses" and b: "''busy'' \<in> set terminal_statuses"
    by (simp_all add: terminal_statuses_def)
  have c: "call_status ?st ''CA1'' (Some ''completed'') = (?e, '''', 200)"
    by (simp add: call_status_def terminal_statuses_def)
  obtain st2 r2 where d: "call_status ?e ''CA1'' (Some ''busy'') = (st2, r2)"
    by (cases "call_status ?e ''CA1'' (Some ''busy'')") auto
  from call_status_twice [OF a b c d] c d show ?thesis by simp
qed

end
